theory Spec2Isabelle
  imports Main "HOL-Library.Sublist" "HOL-Library.Multiset"
begin

section \<open>Notes API: the data model of server.js\<close>

text \<open>
  The server keeps three pieces of module-level state: the array \<open>notes\<close>, the counter
  \<open>noteIdCounter\<close> and the map \<open>rateLimitMap\<close>. Every handler is modelled as a function
  from the state before the request to the response and the state after it.

  Conventions of the model:
  \<^item> a JavaScript string that holds data of a client (a title, a content, a query, the
    identifier of the path) is a \<open>jsstring\<close>, the list of its UTF-16 code units, each a
    natural number; \<open>js\<close> turns a literal into such a list. The fixed texts of the
    server (messages, field names, the client key \<open>default\<close>) are of type \<open>string\<close>;
  \<^item> \<open>String.prototype.toLowerCase\<close> depends on the Unicode tables of the engine. The
    search handler takes the lower-casing function as its argument \<open>lower\<close>, and what is
    proved of the handler holds for every such function; \<open>toLowerCase\<close> below is that
    function on the strings of code units below 256 and U+0130, where no rule of it looks
    at the context, and is the argument in the examples;
  \<^item> a value read from the JSON body or the query string is a \<open>jsval\<close>; a key that is
    absent reads as \<open>JUndefined\<close>;
  \<^item> a time is the number of milliseconds since the epoch, an \<open>int\<close>: \<open>Date.now()\<close>
    returns it, and \<open>new Date().toISOString()\<close> followed by \<open>new Date(...)\<close> in the
    comparators gives it back. Every evaluation of the clock in the source is a separate
    argument of the handler that makes it;
  \<^item> note identifiers are natural numbers, without the 2^53 limit of a double.
\<close>

type_synonym jsstring = "nat list"

definition js :: "string \<Rightarrow> jsstring" where
  "js str = map of_char str"

datatype jsval =
    JUndefined
  | JNull
  | JBool bool
  | JNum int
  | JStr jsstring
  | JArr "jsval list"
  | JObj "(jsstring \<times> jsval) list"

record "note" =
  note_id :: nat
  title :: jsstring
  content :: jsstring
  created_at :: int
  updated_at :: int

record server_state =
  "notes" :: "note list"
  noteIdCounter :: nat
  rateLimitMap :: "string \<rightharpoonup> int list"

definition initial_state :: server_state where
  "initial_state = \<lparr>notes = [], noteIdCounter = 1, rateLimitMap = Map.empty\<rparr>"

definition RATE_LIMIT_WINDOW :: int where
  "RATE_LIMIT_WINDOW = 60000"

definition MAX_NOTES_PER_MINUTE :: nat where
  "MAX_NOTES_PER_MINUTE = 5"

text \<open>The responses of the four routes, one constructor for each \<open>res.json\<close> call.\<close>

datatype response =
    Created "note"
  | ValidationFailed "string list"
  | RateLimited
  | NotesList nat "note list"
  | NotFound "int option"
  | NoChanges "note"
  | Updated "note" "string list"
  | MissingQuery
  | InvalidQuery
  | SearchResults jsstring nat "note list"

section \<open>String helpers\<close>

text \<open>
  \<open>String.prototype.trim\<close> removes white space and line terminators from both ends:
  TAB, LF, VT, FF, CR, SPACE, NBSP, U+1680, U+2000 to U+200A, U+2028, U+2029, U+202F,
  U+205F, U+3000 and U+FEFF.
\<close>

definition isWhiteSpace :: "nat \<Rightarrow> bool" where
  "isWhiteSpace c =
     (c \<in> {9, 10, 11, 12, 13, 32, 160, 5760, 8232, 8233, 8239, 8287, 12288, 65279}
      \<or> (8192 \<le> c \<and> c \<le> 8202))"

definition trim :: "jsstring \<Rightarrow> jsstring" where
  "trim s = rev (dropWhile isWhiteSpace (rev (dropWhile isWhiteSpace s)))"

text \<open>
  \<open>String.prototype.toLowerCase\<close> on strings made of the code units below 256 and of
  U+0130: A-Z and the accented capitals 192-222 (without the multiplication sign 215) move
  up by 32, the capital I with a dot above becomes an i followed by the combining dot
  U+0307, and every other unit of that range stays. Units outside the range are left as
  they are here, which is not what the engine does with all of them.
\<close>

definition lowerLatin :: "nat \<Rightarrow> nat" where
  "lowerLatin c =
     (if (65 \<le> c \<and> c \<le> 90) \<or> (192 \<le> c \<and> c \<le> 222 \<and> c \<noteq> 215) then c + 32 else c)"

definition lowerUnit :: "nat \<Rightarrow> jsstring" where
  "lowerUnit c = (if c = 304 then [105, 775] else [lowerLatin c])"

definition toLowerCase :: "jsstring \<Rightarrow> jsstring" where
  "toLowerCase s = concat (map lowerUnit s)"

text \<open>\<open>String.prototype.includes\<close>: the argument occurs as a contiguous run.\<close>

fun "includes" :: "jsstring \<Rightarrow> jsstring \<Rightarrow> bool" where
  "includes [] q = (q = [])"
| "includes (c # cs) q = (prefix q (c # cs) \<or> includes cs q)"

text \<open>JavaScript truthiness, for \<open>!query\<close>.\<close>

fun falsy :: "jsval \<Rightarrow> bool" where
  "falsy JUndefined = True"
| "falsy JNull = True"
| "falsy (JBool b) = (\<not> b)"
| "falsy (JNum n) = (n = 0)"
| "falsy (JStr s) = (s = [])"
| "falsy (JArr xs) = False"
| "falsy (JObj kvs) = False"

text \<open>
  \<open>parseInt\<close> with no radix: leading white space is skipped, a sign is read (45 is the
  minus sign, 43 the plus sign), a \<open>0x\<close> or \<open>0X\<close> prefix selects radix 16, and the longest
  run of digits is converted; no digit at all gives NaN, here \<open>None\<close>.
\<close>

definition digitValue :: "nat \<Rightarrow> nat option" where
  "digitValue c =
     (if 48 \<le> c \<and> c \<le> 57 then Some (c - 48)
      else if 97 \<le> c \<and> c \<le> 102 then Some (c - 87)
      else if 65 \<le> c \<and> c \<le> 70 then Some (c - 55)
      else None)"

definition isRadixDigit :: "nat \<Rightarrow> nat \<Rightarrow> bool" where
  "isRadixDigit r c = (case digitValue c of None \<Rightarrow> False | Some d \<Rightarrow> d < r)"

definition digitsToNat :: "nat \<Rightarrow> jsstring \<Rightarrow> nat" where
  "digitsToNat r ds = foldl (\<lambda>acc c. acc * r + (case digitValue c of None \<Rightarrow> 0 | Some d \<Rightarrow> d)) 0 ds"

definition parseInt :: "jsstring \<Rightarrow> int option" where
  "parseInt str =
     (let s0 = dropWhile isWhiteSpace str;
          neg = (s0 \<noteq> [] \<and> hd s0 = 45);
          s1 = (if s0 \<noteq> [] \<and> (hd s0 = 45 \<or> hd s0 = 43) then tl s0 else s0);
          hex = (prefix [48, 120] s1 \<or> prefix [48, 88] s1);
          r = (if hex then 16 else 10);
          s2 = (if hex then drop 2 s1 else s1);
          z = takeWhile (isRadixDigit r) s2
      in if z = [] then None
         else Some ((if neg then - 1 else 1) * int (digitsToNat r z)))"

section \<open>The rate limiter\<close>

definition clientId :: "string option \<Rightarrow> string" where
  "clientId ip = (case ip of None \<Rightarrow> ''default'' | Some a \<Rightarrow> if a = [] then ''default'' else a)"

definition validTimestamps :: "int \<Rightarrow> int list \<Rightarrow> int list" where
  "validTimestamps now timestamps = filter (\<lambda>timestamp. now - timestamp < RATE_LIMIT_WINDOW) timestamps"

text \<open>
  The middleware either answers 429 itself or hands over to the next handler, which is
  the argument \<open>nxt\<close>. A client seen for the first time gets an empty record before the
  record is read.
\<close>

definition rateLimiter ::
  "int \<Rightarrow> string option \<Rightarrow> (server_state \<Rightarrow> response \<times> server_state) \<Rightarrow>
   server_state \<Rightarrow> response \<times> server_state" where
  "rateLimiter now ip nxt s =
     (let cid = clientId ip;
          m1 = (case rateLimitMap s cid of None \<Rightarrow> (rateLimitMap s)(cid \<mapsto> []) | Some ts \<Rightarrow> rateLimitMap s);
          timestamps = (case m1 cid of None \<Rightarrow> [] | Some ts \<Rightarrow> ts);
          valid = validTimestamps now timestamps
      in if length valid \<ge> MAX_NOTES_PER_MINUTE
         then (RateLimited, s\<lparr>rateLimitMap := m1\<rparr>)
         else nxt (s\<lparr>rateLimitMap := m1(cid \<mapsto> valid @ [now])\<rparr>))"

section \<open>Validation\<close>

fun cleanString :: "jsval \<Rightarrow> jsstring" where
  "cleanString (JStr str) = trim str"
| "cleanString v = []"

record validation =
  isValid :: bool
  errors :: "string list"
  cleanTitle :: jsstring
  cleanContent :: jsstring

definition validateNoteInput :: "jsval \<Rightarrow> jsval \<Rightarrow> validation" where
  "validateNoteInput rtitle rcontent =
     (let ct = cleanString rtitle;
          cc = cleanString rcontent;
          errs = (if ct = [] then [''Title is required and cannot be empty or just spaces''] else [])
               @ (if cc = [] then [''Content is required and cannot be empty or just spaces''] else [])
      in \<lparr>isValid = (length errs = 0), errors = errs, cleanTitle = ct, cleanContent = cc\<rparr>)"

section \<open>The handlers\<close>

text \<open>
  POST /notes. \<open>now\<close> is the \<open>Date.now()\<close> of the rate limiter; \<open>t_created\<close> and
  \<open>t_updated\<close> are the two \<open>new Date()\<close> of the note literal, in the order in which the
  source evaluates them.
\<close>

definition createNote ::
  "int \<Rightarrow> int \<Rightarrow> jsval \<Rightarrow> jsval \<Rightarrow> server_state \<Rightarrow> response \<times> server_state" where
  "createNote t_created t_updated rtitle rcontent s =
     (let v = validateNoteInput rtitle rcontent
      in if \<not> isValid v then (ValidationFailed (errors v), s)
         else
           (let newNote = \<lparr>note_id = noteIdCounter s, title = cleanTitle v, content = cleanContent v,
                           created_at = t_created, updated_at = t_updated\<rparr>
            in (Created newNote,
                s\<lparr>notes := notes s @ [newNote], noteIdCounter := noteIdCounter s + 1\<rparr>)))"

definition post_notes ::
  "int \<Rightarrow> int \<Rightarrow> int \<Rightarrow> string option \<Rightarrow> jsval \<Rightarrow> jsval \<Rightarrow> server_state \<Rightarrow>
   response \<times> server_state" where
  "post_notes now t_created t_updated ip rtitle rcontent s =
     rateLimiter now ip (createNote t_created t_updated rtitle rcontent) s"

text \<open>
  \<open>Array.prototype.sort\<close> with a comparator: stable, an element goes before another
  when the comparator is not positive. Written as an insertion sort.
\<close>

fun insertBy :: "('a \<Rightarrow> 'a \<Rightarrow> int) \<Rightarrow> 'a \<Rightarrow> 'a list \<Rightarrow> 'a list" where
  "insertBy cmp x [] = [x]"
| "insertBy cmp x (y # ys) = (if cmp x y \<le> 0 then x # y # ys else y # insertBy cmp x ys)"

definition sortBy :: "('a \<Rightarrow> 'a \<Rightarrow> int) \<Rightarrow> 'a list \<Rightarrow> 'a list" where
  "sortBy cmp xs = foldr (insertBy cmp) xs []"

definition byUpdatedDesc :: "note \<Rightarrow> note \<Rightarrow> int" where
  "byUpdatedDesc a b = updated_at b - updated_at a"

text \<open>GET /notes.\<close>

definition get_notes :: "server_state \<Rightarrow> response \<times> server_state" where
  "get_notes s =
     (let sortedNotes = sortBy byUpdatedDesc (notes s)
      in (NotesList (length sortedNotes) sortedNotes, s))"

text \<open>\<open>Array.prototype.findIndex\<close>, with \<open>None\<close> for -1.\<close>

fun findIndex :: "('a \<Rightarrow> bool) \<Rightarrow> 'a list \<Rightarrow> nat option" where
  "findIndex p [] = None"
| "findIndex p (x # xs) = (if p x then Some 0 else map_option Suc (findIndex p xs))"

text \<open>
  PUT /notes/:id. \<open>t_now\<close> is the \<open>new Date()\<close> of the updated note; \<open>rid\<close> is
  \<open>req.params.id\<close>. The object \<open>updatedFields\<close> is the pair of its two possible keys, in
  the order in which they are assigned.
\<close>

definition put_notes_id ::
  "int \<Rightarrow> jsstring \<Rightarrow> jsval \<Rightarrow> jsval \<Rightarrow> server_state \<Rightarrow> response \<times> server_state" where
  "put_notes_id t_now rid rtitle rcontent s =
     (let noteId = parseInt rid
      in case findIndex (\<lambda>n. Some (int (note_id n)) = noteId) (notes s) of
           None \<Rightarrow> (NotFound noteId, s)
         | Some noteIndex \<Rightarrow>
            (let existingNote = notes s ! noteIndex
             in if rtitle \<noteq> JUndefined \<and> cleanString rtitle = []
                then (ValidationFailed [''Title cannot be empty or just spaces''], s)
                else
                 (let newTitle = (if rtitle \<noteq> JUndefined \<and> cleanString rtitle \<noteq> title existingNote
                                  then Some (cleanString rtitle) else None)
                  in if rcontent \<noteq> JUndefined \<and> cleanString rcontent = []
                     then (ValidationFailed [''Content cannot be empty or just spaces''], s)
                     else
                      (let newContent = (if rcontent \<noteq> JUndefined \<and> cleanString rcontent \<noteq> content existingNote
                                         then Some (cleanString rcontent) else None);
                           hasChanges = (newTitle \<noteq> None \<or> newContent \<noteq> None)
                       in if \<not> hasChanges then (NoChanges existingNote, s)
                          else
                           (let updatedNote = existingNote
                                  \<lparr>title := (case newTitle of None \<Rightarrow> title existingNote | Some t \<Rightarrow> t),
                                   content := (case newContent of None \<Rightarrow> content existingNote | Some c \<Rightarrow> c),
                                   updated_at := t_now\<rparr>
                            in (Updated updatedNote
                                  ((case newTitle of None \<Rightarrow> [] | Some t \<Rightarrow> [''title''])
                                   @ (case newContent of None \<Rightarrow> [] | Some c \<Rightarrow> [''content''])),
                                s\<lparr>notes := (notes s)[noteIndex := updatedNote]\<rparr>))))))"

text \<open>
  GET /notes/search; \<open>query\<close> is \<open>req.query.q\<close> and \<open>lower\<close> is
  \<open>String.prototype.toLowerCase\<close>.
\<close>

definition noteMatches :: "(jsstring \<Rightarrow> jsstring) \<Rightarrow> jsstring \<Rightarrow> note \<Rightarrow> bool" where
  "noteMatches lower cleanQuery n =
     (includes (lower (title n)) cleanQuery \<or> includes (lower (content n)) cleanQuery)"

definition get_notes_search ::
  "(jsstring \<Rightarrow> jsstring) \<Rightarrow> jsval \<Rightarrow> server_state \<Rightarrow> response \<times> server_state" where
  "get_notes_search lower query s =
     (if falsy query then (MissingQuery, s)
      else
       (let cleanQuery = lower (cleanString query)
        in if cleanQuery = [] then (InvalidQuery, s)
           else
            (let results = filter (noteMatches lower cleanQuery) (notes s);
                 sortedResults = sortBy byUpdatedDesc results
             in (SearchResults cleanQuery (length sortedResults) sortedResults, s))))"

section \<open>Predicates used by the properties\<close>

fun isString :: "jsval \<Rightarrow> bool" where
  "isString (JStr str) = True"
| "isString v = False"

text \<open>The record of a client in the rate-limit map; a client without an entry has none.\<close>

definition clientRecord :: "server_state \<Rightarrow> string option \<Rightarrow> int list" where
  "clientRecord s ip = (case rateLimitMap s (clientId ip) of None \<Rightarrow> [] | Some ts \<Rightarrow> ts)"

text \<open>
  A stored text is in order when it is not empty, not made of white space only, and
  neither starts nor ends with white space.
\<close>

definition stored_ok :: "jsstring \<Rightarrow> bool" where
  "stored_ok str =
     (str \<noteq> [] \<and> \<not> list_all isWhiteSpace str \<and> \<not> isWhiteSpace (hd str) \<and> \<not> isWhiteSpace (last str))"

definition notes_clean :: "server_state \<Rightarrow> bool" where
  "notes_clean s = list_all (\<lambda>n. stored_ok (title n) \<and> stored_ok (content n)) (notes s)"

text \<open>The states the server can be in: the initial one, and any state after a request.\<close>

inductive reachable :: "server_state \<Rightarrow> bool" where
  start: "reachable initial_state"
| post: "reachable s \<Longrightarrow> reachable (snd (post_notes now t_created t_updated ip rtitle rcontent s))"
| list: "reachable s \<Longrightarrow> reachable (snd (get_notes s))"
| put: "reachable s \<Longrightarrow> reachable (snd (put_notes_id t_now rid rtitle rcontent s))"
| search: "reachable s \<Longrightarrow> reachable (snd (get_notes_search lower query s))"

text \<open>
  A run of create requests of one client: each request has its time and its payload, and
  the clock does not move during a request.
\<close>

fun posts :: "string option \<Rightarrow> (int \<times> jsval \<times> jsval) list \<Rightarrow> server_state \<Rightarrow> response list \<times> server_state" where
  "posts ip [] s = ([], s)"
| "posts ip ((t, rtitle, rcontent) # reqs) s =
     (let (r, s1) = post_notes t t t ip rtitle rcontent s;
          (rs, s2) = posts ip reqs s1
      in (r # rs, s2))"

text \<open>
  The pruning as the specification words it: a timestamp is discarded when it is older
  than \<open>now - window\<close>, and kept otherwise.
\<close>

definition spec_pruneOlder :: "int \<Rightarrow> int list \<Rightarrow> int list" where
  "spec_pruneOlder now timestamps = filter (\<lambda>timestamp. \<not> timestamp < now - RATE_LIMIT_WINDOW) timestamps"


text \<open>A state with one stored note, whose client has made one request at time 1000.\<close>

definition example_note :: "note" where
  "example_note = \<lparr>note_id = 1, title = js ''Meeting Notes'', content = js ''Discussed hiring plan'',
                    created_at = 1000, updated_at = 1000\<rparr>"

definition example_state :: server_state where
  "example_state = \<lparr>notes = [example_note], noteIdCounter = 2,
                     rateLimitMap = Map.empty(''default'' \<mapsto> [1000])\<rparr>"

text \<open>A state whose only note has the capital I with a dot above, U+0130, as its title.\<close>

definition dotted_note :: "note" where
  "dotted_note = \<lparr>note_id = 1, title = [304], content = js ''x'',
                   created_at = 1000, updated_at = 1000\<rparr>"

definition dotted_state :: server_state where
  "dotted_state = \<lparr>notes = [dotted_note], noteIdCounter = 2,
                    rateLimitMap = Map.empty(''default'' \<mapsto> [1000])\<rparr>"

text \<open>The state after five notes created by one client at the times 1000 to 1004.\<close>

definition busy_state :: server_state where
  "busy_state =
     snd (posts None
            [(1000, JStr (js ''n1''), JStr (js ''c1'')), (1001, JStr (js ''n2''), JStr (js ''c2'')),
             (1002, JStr (js ''n3''), JStr (js ''c3'')), (1003, JStr (js ''n4''), JStr (js ''c4'')),
             (1004, JStr (js ''n5''), JStr (js ''c5''))]
            initial_state)"

section \<open>Facts about the helpers\<close>

lemma findIndex_None: "findIndex p xs = None \<longleftrightarrow> (\<forall>x\<in>set xs. \<not> p x)"
  by (induction xs) auto

lemma findIndex_Some: "findIndex p xs = Some i \<Longrightarrow> i < length xs \<and> p (xs ! i)"
  by (induction xs arbitrary: i) (auto split: if_splits)

lemma dropWhile_snoc_keep: "\<not> p x \<Longrightarrow> \<exists>zs. dropWhile p (ys @ [x]) = zs @ [x]"
  by (induction ys) auto

lemma trim_last: "trim s \<noteq> [] \<Longrightarrow> \<not> isWhiteSpace (last (trim s))"
  unfolding trim_def by (simp add: last_rev hd_dropWhile)

lemma trim_hd:
  assumes ne: "trim s \<noteq> []"
  shows "\<not> isWhiteSpace (hd (trim s))"
proof (cases "dropWhile isWhiteSpace s")
  case Nil
  with ne show ?thesis by (simp add: trim_def)
next
  case (Cons x ys)
  then have x: "\<not> isWhiteSpace x"
    by (metis hd_dropWhile list.distinct(1) list.sel(1))
  from dropWhile_snoc_keep [of isWhiteSpace x "rev ys"] x
  obtain zs where "dropWhile isWhiteSpace (rev ys @ [x]) = zs @ [x]" by blast
  with Cons have "trim s = x # rev zs" by (simp add: trim_def)
  with x show ?thesis by simp
qed

lemma stored_ok_trim: "trim s \<noteq> [] \<Longrightarrow> stored_ok (trim s)"
  using trim_hd [of s] trim_last [of s]
  by (auto simp: stored_ok_def list_all_iff intro: bexI [of _ "hd (trim s)"])

lemma stored_ok_cleanString: "cleanString v \<noteq> [] \<Longrightarrow> stored_ok (cleanString v)"
  by (cases v) (simp_all add: stored_ok_trim)

lemma cleanString_nonstring: "\<not> isString v \<Longrightarrow> cleanString v = []"
  by (cases v) simp_all

lemma validateNoteInput_fields:
  "isValid (validateNoteInput a b) = (cleanString a \<noteq> [] \<and> cleanString b \<noteq> [])"
  "cleanTitle (validateNoteInput a b) = cleanString a"
  "cleanContent (validateNoteInput a b) = cleanString b"
  by (simp_all add: validateNoteInput_def Let_def)

lemma createNote_invalid:
  "\<not> (cleanString a \<noteq> [] \<and> cleanString b \<noteq> []) \<Longrightarrow>
   createNote tc tu a b s = (ValidationFailed (errors (validateNoteInput a b)), s)"
  by (simp add: createNote_def validateNoteInput_fields Let_def)

lemma createNote_valid:
  "cleanString a \<noteq> [] \<Longrightarrow> cleanString b \<noteq> [] \<Longrightarrow>
   createNote tc tu a b s =
     (Created \<lparr>note_id = noteIdCounter s, title = cleanString a, content = cleanString b,
               created_at = tc, updated_at = tu\<rparr>,
      s\<lparr>notes := notes s @ [\<lparr>note_id = noteIdCounter s, title = cleanString a,
                              content = cleanString b, created_at = tc, updated_at = tu\<rparr>],
        noteIdCounter := noteIdCounter s + 1\<rparr>)"
  by (simp add: createNote_def validateNoteInput_fields Let_def)

lemma rateLimiter_reject:
  "MAX_NOTES_PER_MINUTE \<le> length (validTimestamps now (clientRecord s ip)) \<Longrightarrow>
   rateLimiter now ip nxt s = (RateLimited, s)"
  by (auto simp: rateLimiter_def clientRecord_def Let_def validTimestamps_def MAX_NOTES_PER_MINUTE_def
           split: option.splits)

lemma rateLimiter_accept:
  "length (validTimestamps now (clientRecord s ip)) < MAX_NOTES_PER_MINUTE \<Longrightarrow>
   rateLimiter now ip nxt s =
     nxt (s\<lparr>rateLimitMap := (rateLimitMap s)(clientId ip \<mapsto> validTimestamps now (clientRecord s ip) @ [now])\<rparr>)"
  by (auto simp: rateLimiter_def clientRecord_def Let_def validTimestamps_def MAX_NOTES_PER_MINUTE_def
           split: option.splits)

lemma createNote_response: "fst (createNote tc tu a b s) \<noteq> RateLimited"
  by (simp add: createNote_def Let_def)

lemma post_notes_limited:
  "MAX_NOTES_PER_MINUTE \<le> length (validTimestamps now (clientRecord s ip)) \<Longrightarrow>
   post_notes now tc tu ip a b s = (RateLimited, s)"
  by (simp add: post_notes_def rateLimiter_reject)

lemma post_notes_passed:
  "length (validTimestamps now (clientRecord s ip)) < MAX_NOTES_PER_MINUTE \<Longrightarrow>
   post_notes now tc tu ip a b s =
     createNote tc tu a b
       (s\<lparr>rateLimitMap := (rateLimitMap s)(clientId ip \<mapsto> validTimestamps now (clientRecord s ip) @ [now])\<rparr>)"
  by (simp add: post_notes_def rateLimiter_accept)

lemma post_notes_RateLimited_iff:
  "fst (post_notes now tc tu ip a b s) = RateLimited \<longleftrightarrow>
   MAX_NOTES_PER_MINUTE \<le> length (validTimestamps now (clientRecord s ip))"
  by (cases "MAX_NOTES_PER_MINUTE \<le> length (validTimestamps now (clientRecord s ip))")
     (simp_all add: post_notes_limited post_notes_passed createNote_response)

lemma post_notes_ValidationFailed:
  assumes "fst (post_notes now tc tu ip a b s) = ValidationFailed es"
  shows "snd (post_notes now tc tu ip a b s) =
           s\<lparr>rateLimitMap := (rateLimitMap s)(clientId ip \<mapsto> validTimestamps now (clientRecord s ip) @ [now])\<rparr>"
proof (cases "MAX_NOTES_PER_MINUTE \<le> length (validTimestamps now (clientRecord s ip))")
  case True
  with assms show ?thesis by (simp add: post_notes_limited)
next
  case False
  then have "post_notes now tc tu ip a b s =
     createNote tc tu a b
       (s\<lparr>rateLimitMap := (rateLimitMap s)(clientId ip \<mapsto> validTimestamps now (clientRecord s ip) @ [now])\<rparr>)"
    by (simp add: post_notes_passed)
  with assms show ?thesis
    by (cases "cleanString a \<noteq> [] \<and> cleanString b \<noteq> []")
       (simp_all add: createNote_valid createNote_invalid)
qed

text \<open>The update of a note that exists, as one chain of cases.\<close>

lemma put_notes_id_found:
  assumes "findIndex (\<lambda>n. Some (int (note_id n)) = parseInt rid) (notes s) = Some i"
  shows "put_notes_id t rid a b s =
     (if a \<noteq> JUndefined \<and> cleanString a = [] then (ValidationFailed [''Title cannot be empty or just spaces''], s)
      else if b \<noteq> JUndefined \<and> cleanString b = [] then (ValidationFailed [''Content cannot be empty or just spaces''], s)
      else if \<not> (a \<noteq> JUndefined \<and> cleanString a \<noteq> title (notes s ! i)) \<and>
              \<not> (b \<noteq> JUndefined \<and> cleanString b \<noteq> content (notes s ! i))
      then (NoChanges (notes s ! i), s)
      else (Updated
              ((notes s ! i)
                 \<lparr>title := (if a \<noteq> JUndefined \<and> cleanString a \<noteq> title (notes s ! i) then cleanString a else title (notes s ! i)),
                  content := (if b \<noteq> JUndefined \<and> cleanString b \<noteq> content (notes s ! i) then cleanString b else content (notes s ! i)),
                  updated_at := t\<rparr>)
              ((if a \<noteq> JUndefined \<and> cleanString a \<noteq> title (notes s ! i) then [''title''] else []) @
               (if b \<noteq> JUndefined \<and> cleanString b \<noteq> content (notes s ! i) then [''content''] else [])),
            s\<lparr>notes := (notes s)[i := (notes s ! i)
                 \<lparr>title := (if a \<noteq> JUndefined \<and> cleanString a \<noteq> title (notes s ! i) then cleanString a else title (notes s ! i)),
                  content := (if b \<noteq> JUndefined \<and> cleanString b \<noteq> content (notes s ! i) then cleanString b else content (notes s ! i)),
                  updated_at := t\<rparr>]\<rparr>))"
  using assms by (simp add: put_notes_id_def Let_def)

lemma put_notes_id_missing:
  "findIndex (\<lambda>n. Some (int (note_id n)) = parseInt rid) (notes s) = None \<Longrightarrow>
   put_notes_id t rid a b s = (NotFound (parseInt rid), s)"
  by (simp add: put_notes_id_def)

lemma put_notes_id_rejected:
  assumes "fst (put_notes_id t rid a b s) = ValidationFailed es \<or>
           fst (put_notes_id t rid a b s) = NotFound x \<or>
           fst (put_notes_id t rid a b s) = NoChanges n"
  shows "snd (put_notes_id t rid a b s) = s"
proof (cases "findIndex (\<lambda>n. Some (int (note_id n)) = parseInt rid) (notes s)")
  case None
  then show ?thesis by (simp add: put_notes_id_missing)
next
  case (Some i)
  show ?thesis
    using assms unfolding put_notes_id_found [OF Some]
    by (auto split: if_splits)
qed

lemma get_notes_search_state: "snd (get_notes_search lower q s) = s"
  by (simp add: get_notes_search_def Let_def)

lemma get_notes_state: "snd (get_notes s) = s"
  by (simp add: get_notes_def Let_def)

section \<open>Update of an absent note\<close>

text \<open>
  C9. When no stored note has the identifier that \<open>parseInt\<close> reads from the path, the
  update answers NotFound whatever the body holds, also a blank or non-string title or
  content, and the state stays as it was; no validation error is reported.
\<close>

theorem update_absent_is_NotFound:
  assumes "\<forall>n\<in>set (notes s). Some (int (note_id n)) \<noteq> parseInt rid"
  shows "put_notes_id t_now rid rtitle rcontent s = (NotFound (parseInt rid), s)"
proof -
  from assms have "findIndex (\<lambda>n. Some (int (note_id n)) = parseInt rid) (notes s) = None"
    by (simp add: findIndex_None)
  then show ?thesis by (simp add: put_notes_id_def)
qed

lemmas parseInt_eval = js_def parseInt_def isWhiteSpace_def isRadixDigit_def digitValue_def digitsToNat_def Let_def

theorem update_absent_is_NotFound_witness:
  "map note_id (notes example_state) = [1] \<and> parseInt (js ''99999'') = Some 99999
   \<and> put_notes_id 5000 (js ''99999'') (JStr (js ''   '')) JNull example_state
       = (NotFound (Some 99999), example_state)"
proof -
  have p: "parseInt (js ''99999'') = Some 99999"
    by (simp add: parseInt_eval)
  have h: "\<forall>n\<in>set (notes example_state). Some (int (note_id n)) \<noteq> parseInt (js ''99999'')"
    by (simp add: p example_state_def example_note_def)
  from update_absent_is_NotFound [OF h, of 5000 "JStr (js ''   '')" JNull] p show ?thesis
    by (simp add: example_state_def example_note_def)
qed

lemmas handler_eval = post_notes_def rateLimiter_def createNote_def validateNoteInput_def
  validTimestamps_def MAX_NOTES_PER_MINUTE_def RATE_LIMIT_WINDOW_def clientId_def clientRecord_def
  trim_def isWhiteSpace_def js_def Let_def

lemma busy_state_record: "clientRecord busy_state None = [1000, 1001, 1002, 1003, 1004]"
  by (simp add: busy_state_def initial_state_def handler_eval)

lemma reachable_posts: "reachable s \<Longrightarrow> reachable (snd (posts ip reqs s))"
proof (induction reqs arbitrary: s)
  case Nil
  then show ?case by simp
next
  case (Cons r reqs)
  obtain t a b where r: "r = (t, a, b)" by (cases r)
  from Cons.prems have "reachable (snd (post_notes t t t ip a b s))" by (rule reachable.post)
  from Cons.IH [OF this] show ?case
    by (simp add: r split_beta Let_def)
qed

lemma reachable_busy_state: "reachable busy_state"
  unfolding busy_state_def by (rule reachable_posts [OF reachable.start])

lemma example_state_reachable:
  "example_state =
     snd (post_notes 1000 1000 1000 None (JStr (js ''Meeting Notes'')) (JStr (js ''Discussed hiring plan'')) initial_state)"
  by (simp add: example_state_def example_note_def initial_state_def handler_eval)

lemma reachable_example_state: "reachable example_state"
  unfolding example_state_reachable by (rule reachable.post [OF reachable.start])

section \<open>Rejected requests\<close>

text \<open>
  C1, as the code has it. A create from a client over the limit, an update rejected with
  ValidationFailed or NotFound, and a search rejected with MissingQuery or InvalidQuery
  leave the notes, the counter and every client's record as they were. A create rejected
  with ValidationFailed leaves the notes and the counter, but it has passed the rate
  limiter first: the record of its client is now the timestamps still within the window
  followed by the time of the request; the records of the other clients are as before.
\<close>

theorem rejected_requests_state:
  "(fst (post_notes now tc tu ip a b s) = RateLimited \<longrightarrow>
      snd (post_notes now tc tu ip a b s) = s)
   \<and> (fst (post_notes now tc tu ip a b s) = ValidationFailed es \<longrightarrow>
      notes (snd (post_notes now tc tu ip a b s)) = notes s \<and>
      noteIdCounter (snd (post_notes now tc tu ip a b s)) = noteIdCounter s \<and>
      rateLimitMap (snd (post_notes now tc tu ip a b s)) =
        (rateLimitMap s)(clientId ip \<mapsto> validTimestamps now (clientRecord s ip) @ [now]))
   \<and> (fst (put_notes_id t rid a b s) = ValidationFailed es \<longrightarrow> snd (put_notes_id t rid a b s) = s)
   \<and> (fst (put_notes_id t rid a b s) = NotFound x \<longrightarrow> snd (put_notes_id t rid a b s) = s)
   \<and> (fst (get_notes_search lower q s) = MissingQuery \<longrightarrow> snd (get_notes_search lower q s) = s)
   \<and> (fst (get_notes_search lower q s) = InvalidQuery \<longrightarrow> snd (get_notes_search lower q s) = s)"
proof -
  have limited: "fst (post_notes now tc tu ip a b s) = RateLimited \<longrightarrow>
      snd (post_notes now tc tu ip a b s) = s"
    by (simp add: post_notes_RateLimited_iff post_notes_limited)
  have invalid: "fst (post_notes now tc tu ip a b s) = ValidationFailed es \<longrightarrow>
      notes (snd (post_notes now tc tu ip a b s)) = notes s \<and>
      noteIdCounter (snd (post_notes now tc tu ip a b s)) = noteIdCounter s \<and>
      rateLimitMap (snd (post_notes now tc tu ip a b s)) =
        (rateLimitMap s)(clientId ip \<mapsto> validTimestamps now (clientRecord s ip) @ [now])"
    by (simp add: post_notes_ValidationFailed)
  have upd: "fst (put_notes_id t rid a b s) = ValidationFailed es \<longrightarrow> snd (put_notes_id t rid a b s) = s"
    "fst (put_notes_id t rid a b s) = NotFound x \<longrightarrow> snd (put_notes_id t rid a b s) = s"
    using put_notes_id_rejected [of t rid a b s es x] by blast+
  from limited invalid upd show ?thesis
    by (simp add: get_notes_search_state)
qed

theorem rejected_requests_state_witness:
  "post_notes 2000 2000 2000 None (JStr (js ''n6'')) (JStr (js ''c6'')) busy_state = (RateLimited, busy_state)
   \<and> fst (post_notes 5000 5000 5000 None (JStr (js ''   '')) (JStr (js ''text'')) example_state)
       = ValidationFailed [''Title is required and cannot be empty or just spaces'']
   \<and> notes (snd (post_notes 5000 5000 5000 None (JStr (js ''   '')) (JStr (js ''text'')) example_state)) = [example_note]
   \<and> noteIdCounter (snd (post_notes 5000 5000 5000 None (JStr (js ''   '')) (JStr (js ''text'')) example_state)) = 2
   \<and> rateLimitMap (snd (post_notes 5000 5000 5000 None (JStr (js ''   '')) (JStr (js ''text'')) example_state)) ''default''
       = Some [1000, 5000]
   \<and> put_notes_id 5000 (js ''1'') (JStr (js ''   '')) JUndefined example_state
       = (ValidationFailed [''Title cannot be empty or just spaces''], example_state)
   \<and> put_notes_id 5000 (js ''7'') (JStr (js ''New'')) JUndefined example_state = (NotFound (Some 7), example_state)
   \<and> get_notes_search toLowerCase JUndefined example_state = (MissingQuery, example_state)
   \<and> get_notes_search toLowerCase (JStr (js ''   '')) example_state = (InvalidQuery, example_state)"
proof -
  have f1: "fst (post_notes 2000 2000 2000 None (JStr (js ''n6'')) (JStr (js ''c6'')) busy_state) = RateLimited"
    by (simp add: post_notes_RateLimited_iff busy_state_record validTimestamps_def
                  MAX_NOTES_PER_MINUTE_def RATE_LIMIT_WINDOW_def)
  have f2: "fst (post_notes 5000 5000 5000 None (JStr (js ''   '')) (JStr (js ''text'')) example_state)
       = ValidationFailed [''Title is required and cannot be empty or just spaces'']"
    by (simp add: example_state_def handler_eval)
  have f3: "fst (put_notes_id 5000 (js ''1'') (JStr (js ''   '')) JUndefined example_state)
       = ValidationFailed [''Title cannot be empty or just spaces'']"
    by (simp add: put_notes_id_def parseInt_eval example_state_def example_note_def trim_def)
  have f4: "fst (put_notes_id 5000 (js ''7'') (JStr (js ''New'')) JUndefined example_state) = NotFound (Some 7)"
    by (simp add: put_notes_id_def parseInt_eval example_state_def example_note_def)
  have f5: "fst (get_notes_search toLowerCase JUndefined example_state) = MissingQuery"
    by (simp add: get_notes_search_def)
  have f6: "fst (get_notes_search toLowerCase (JStr (js ''   '')) example_state) = InvalidQuery"
    by (simp add: get_notes_search_def toLowerCase_def trim_def isWhiteSpace_def js_def)
  have rec: "clientRecord example_state None = [1000]"
    by (simp add: clientRecord_def clientId_def example_state_def)
  note r1 = rejected_requests_state [of 2000 2000 2000 None "JStr (js ''n6'')" "JStr (js ''c6'')" busy_state]
  note r2 = rejected_requests_state [of 5000 5000 5000 None "JStr (js ''   '')" "JStr (js ''text'')" example_state
              "[''Title is required and cannot be empty or just spaces'']"]
  note r3 = rejected_requests_state [of _ _ _ _ "JStr (js ''   '')" JUndefined example_state
              "[''Title cannot be empty or just spaces'']" 5000 "js ''1''"]
  note r4 = rejected_requests_state [of _ _ _ _ "JStr (js ''New'')" JUndefined example_state _ 5000 "js ''7''" "Some 7"]
  note r5 = rejected_requests_state [of _ _ _ _ _ _ example_state _ _ _ _ toLowerCase JUndefined]
  note r6 = rejected_requests_state [of _ _ _ _ _ _ example_state _ _ _ _ toLowerCase "JStr (js ''   '')"]
  have c1: "post_notes 2000 2000 2000 None (JStr (js ''n6'')) (JStr (js ''c6'')) busy_state = (RateLimited, busy_state)"
    using r1 f1 by (simp add: prod_eq_iff)
  have c2: "notes (snd (post_notes 5000 5000 5000 None (JStr (js ''   '')) (JStr (js ''text'')) example_state)) = [example_note]
     \<and> noteIdCounter (snd (post_notes 5000 5000 5000 None (JStr (js ''   '')) (JStr (js ''text'')) example_state)) = 2
     \<and> rateLimitMap (snd (post_notes 5000 5000 5000 None (JStr (js ''   '')) (JStr (js ''text'')) example_state)) ''default''
       = Some [1000, 5000]"
    using r2 f2 rec
    by (simp add: example_state_def clientId_def validTimestamps_def RATE_LIMIT_WINDOW_def)
  have c3: "put_notes_id 5000 (js ''1'') (JStr (js ''   '')) JUndefined example_state
       = (ValidationFailed [''Title cannot be empty or just spaces''], example_state)"
    using r3 f3 by (simp add: prod_eq_iff)
  have c4: "put_notes_id 5000 (js ''7'') (JStr (js ''New'')) JUndefined example_state = (NotFound (Some 7), example_state)"
    using r4 f4 by (simp add: prod_eq_iff)
  have c5: "get_notes_search toLowerCase JUndefined example_state = (MissingQuery, example_state)"
    using r5 f5 by (simp add: prod_eq_iff)
  have c6: "get_notes_search toLowerCase (JStr (js ''   '')) example_state = (InvalidQuery, example_state)"
    using r6 f6 by (simp add: prod_eq_iff)
  from c1 f2 c2 c3 c4 c5 c6 show ?thesis by simp
qed

text \<open>
  The claim as it was stated fails for a create with a blank title sent to the initial
  state: the request is rejected with ValidationFailed, and the client, which had no
  record, has one afterwards.
\<close>

theorem rejected_create_is_counted:
  "fst (post_notes 1000 1000 1000 None (JStr (js ''   '')) (JStr (js ''text'')) initial_state)
     = ValidationFailed [''Title is required and cannot be empty or just spaces'']
   \<and> rateLimitMap initial_state ''default'' = None
   \<and> rateLimitMap (snd (post_notes 1000 1000 1000 None (JStr (js ''   '')) (JStr (js ''text'')) initial_state)) ''default''
       = Some [1000]"
  by (simp add: initial_state_def handler_eval)

section \<open>Values that are not strings\<close>

text \<open>
  C10, as the code has it. A create request that passes the rate limiter and whose title or
  content is not a string is rejected with ValidationFailed, and nothing is stored; so is
  an update of an existing note in which a provided title or content is not a string, and
  it leaves the whole state. In both handlers a value that is not a string does what the
  empty string does in its place. (A create from a client over the limit is answered
  RateLimited before the body is looked at.)
\<close>

theorem nonstring_fields_rejected:
  "((\<not> isString a \<or> \<not> isString b) \<and>
      length (validTimestamps now (clientRecord s ip)) < MAX_NOTES_PER_MINUTE \<longrightarrow>
      (\<exists>es. fst (post_notes now tc tu ip a b s) = ValidationFailed es) \<and>
      notes (snd (post_notes now tc tu ip a b s)) = notes s \<and>
      noteIdCounter (snd (post_notes now tc tu ip a b s)) = noteIdCounter s)
   \<and> ((\<exists>n\<in>set (notes s). Some (int (note_id n)) = parseInt rid) \<and>
      ((a \<noteq> JUndefined \<and> \<not> isString a) \<or> (b \<noteq> JUndefined \<and> \<not> isString b)) \<longrightarrow>
      (\<exists>es. put_notes_id t rid a b s = (ValidationFailed es, s)))
   \<and> (\<not> isString a \<longrightarrow> post_notes now tc tu ip a b s = post_notes now tc tu ip (JStr []) b s)
   \<and> (\<not> isString b \<longrightarrow> post_notes now tc tu ip a b s = post_notes now tc tu ip a (JStr []) s)
   \<and> (a \<noteq> JUndefined \<and> \<not> isString a \<longrightarrow>
        put_notes_id t rid a b s = put_notes_id t rid (JStr []) b s)
   \<and> (b \<noteq> JUndefined \<and> \<not> isString b \<longrightarrow>
        put_notes_id t rid a b s = put_notes_id t rid a (JStr []) s)"
proof -
  have create: "(\<exists>es. fst (post_notes now tc tu ip a b s) = ValidationFailed es) \<and>
      notes (snd (post_notes now tc tu ip a b s)) = notes s \<and>
      noteIdCounter (snd (post_notes now tc tu ip a b s)) = noteIdCounter s"
    if "\<not> isString a \<or> \<not> isString b"
      and "length (validTimestamps now (clientRecord s ip)) < MAX_NOTES_PER_MINUTE"
  proof -
    from that(1) have "\<not> (cleanString a \<noteq> [] \<and> cleanString b \<noteq> [])"
      by (auto simp: cleanString_nonstring)
    then show ?thesis
      by (simp add: post_notes_passed [OF that(2)] createNote_invalid)
  qed
  have update: "\<exists>es. put_notes_id t rid a b s = (ValidationFailed es, s)"
    if "\<exists>n\<in>set (notes s). Some (int (note_id n)) = parseInt rid"
      and "(a \<noteq> JUndefined \<and> \<not> isString a) \<or> (b \<noteq> JUndefined \<and> \<not> isString b)"
  proof -
    from that(1) obtain i where
      "findIndex (\<lambda>n. Some (int (note_id n)) = parseInt rid) (notes s) = Some i"
      using findIndex_None [of "\<lambda>n. Some (int (note_id n)) = parseInt rid" "notes s"] by auto
    from put_notes_id_found [OF this] that(2) show ?thesis
      by (auto simp: cleanString_nonstring)
  qed
  have same_create:
    "\<not> isString a \<longrightarrow> post_notes now tc tu ip a b s = post_notes now tc tu ip (JStr []) b s"
    "\<not> isString b \<longrightarrow> post_notes now tc tu ip a b s = post_notes now tc tu ip a (JStr []) s"
  proof -
    have "createNote tc tu a b = createNote tc tu (JStr []) b" if "\<not> isString a"
      by (rule ext) (simp add: createNote_def validateNoteInput_def cleanString_nonstring that trim_def)
    then show "\<not> isString a \<longrightarrow>
        post_notes now tc tu ip a b s = post_notes now tc tu ip (JStr []) b s"
      by (simp add: post_notes_def)
    have "createNote tc tu a b = createNote tc tu a (JStr [])" if "\<not> isString b"
      by (rule ext) (simp add: createNote_def validateNoteInput_def cleanString_nonstring that trim_def)
    then show "\<not> isString b \<longrightarrow>
        post_notes now tc tu ip a b s = post_notes now tc tu ip a (JStr []) s"
      by (simp add: post_notes_def)
  qed
  have same_update_title: "put_notes_id t rid a b s = put_notes_id t rid (JStr []) b s"
    if "a \<noteq> JUndefined \<and> \<not> isString a"
  proof (cases "findIndex (\<lambda>n. Some (int (note_id n)) = parseInt rid) (notes s)")
    case None
    then show ?thesis by (simp add: put_notes_id_missing)
  next
    case (Some i)
    from that show ?thesis
      by (simp add: put_notes_id_found [OF Some] cleanString_nonstring trim_def)
  qed
  have same_update_content: "put_notes_id t rid a b s = put_notes_id t rid a (JStr []) s"
    if "b \<noteq> JUndefined \<and> \<not> isString b"
  proof (cases "findIndex (\<lambda>n. Some (int (note_id n)) = parseInt rid) (notes s)")
    case None
    then show ?thesis by (simp add: put_notes_id_missing)
  next
    case (Some i)
    from that show ?thesis
      by (simp add: put_notes_id_found [OF Some] cleanString_nonstring trim_def)
  qed
  from create update same_create same_update_title same_update_content show ?thesis
    by blast
qed

theorem nonstring_fields_rejected_witness:
  "fst (post_notes 5000 5000 5000 None (JNum 5) (JStr (js ''text'')) example_state)
     = ValidationFailed [''Title is required and cannot be empty or just spaces'']
   \<and> notes (snd (post_notes 5000 5000 5000 None (JNum 5) (JStr (js ''text'')) example_state)) = [example_note]
   \<and> noteIdCounter (snd (post_notes 5000 5000 5000 None (JNum 5) (JStr (js ''text'')) example_state)) = 2
   \<and> put_notes_id 5000 (js ''1'') (JStr (js ''New title'')) JNull example_state
       = (ValidationFailed [''Content cannot be empty or just spaces''], example_state)
   \<and> post_notes 5000 5000 5000 None (JNum 5) (JStr (js ''text'')) example_state
       = post_notes 5000 5000 5000 None (JStr []) (JStr (js ''text'')) example_state
   \<and> post_notes 5000 5000 5000 None (JStr (js ''New title'')) (JArr []) example_state
       = post_notes 5000 5000 5000 None (JStr (js ''New title'')) (JStr []) example_state
   \<and> put_notes_id 5000 (js ''1'') (JObj []) JUndefined example_state
       = put_notes_id 5000 (js ''1'') (JStr []) JUndefined example_state
   \<and> put_notes_id 5000 (js ''1'') (JStr (js ''New title'')) JNull example_state
       = put_notes_id 5000 (js ''1'') (JStr (js ''New title'')) (JStr []) example_state"
proof -
  have rec: "length (validTimestamps 5000 (clientRecord example_state None)) < MAX_NOTES_PER_MINUTE"
    by (simp add: clientRecord_def clientId_def example_state_def validTimestamps_def
                  MAX_NOTES_PER_MINUTE_def RATE_LIMIT_WINDOW_def)
  have ex: "\<exists>n\<in>set (notes example_state). Some (int (note_id n)) = parseInt (js ''1'')"
    by (simp add: example_state_def example_note_def parseInt_eval)
  have f1: "fst (post_notes 5000 5000 5000 None (JNum 5) (JStr (js ''text'')) example_state)
     = ValidationFailed [''Title is required and cannot be empty or just spaces'']"
    by (simp add: example_state_def handler_eval)
  have f2: "fst (put_notes_id 5000 (js ''1'') (JStr (js ''New title'')) JNull example_state)
     = ValidationFailed [''Content cannot be empty or just spaces'']"
    by (simp add: put_notes_id_def parseInt_eval example_state_def example_note_def trim_def)
  note r1 = nonstring_fields_rejected [of "JNum 5" "JStr (js ''text'')" 5000 example_state None 5000 5000]
  note r2 = nonstring_fields_rejected [of "JStr (js ''New title'')" JNull _ example_state _ _ _ "js ''1''" 5000]
  note r3 = nonstring_fields_rejected [of "JStr (js ''New title'')" "JArr []" 5000 example_state None 5000 5000]
  note r4 = nonstring_fields_rejected [of "JObj []" JUndefined _ example_state _ _ _ "js ''1''" 5000]
  have c1: "notes (snd (post_notes 5000 5000 5000 None (JNum 5) (JStr (js ''text'')) example_state)) = [example_note]
     \<and> noteIdCounter (snd (post_notes 5000 5000 5000 None (JNum 5) (JStr (js ''text'')) example_state)) = 2"
    using r1 [THEN conjunct1] rec by (simp add: example_state_def)
  have c2: "put_notes_id 5000 (js ''1'') (JStr (js ''New title'')) JNull example_state
       = (ValidationFailed [''Content cannot be empty or just spaces''], example_state)"
    using r2 [THEN conjunct2, THEN conjunct1] ex f2 by auto
  have c3: "post_notes 5000 5000 5000 None (JNum 5) (JStr (js ''text'')) example_state
       = post_notes 5000 5000 5000 None (JStr []) (JStr (js ''text'')) example_state"
    using r1 [THEN conjunct2, THEN conjunct2, THEN conjunct1] by simp
  have c4: "post_notes 5000 5000 5000 None (JStr (js ''New title'')) (JArr []) example_state
       = post_notes 5000 5000 5000 None (JStr (js ''New title'')) (JStr []) example_state"
    using r3 [THEN conjunct2, THEN conjunct2, THEN conjunct2, THEN conjunct1] by simp
  have c5: "put_notes_id 5000 (js ''1'') (JObj []) JUndefined example_state
       = put_notes_id 5000 (js ''1'') (JStr []) JUndefined example_state"
    using r4 [THEN conjunct2, THEN conjunct2, THEN conjunct2, THEN conjunct2, THEN conjunct1] by simp
  have c6: "put_notes_id 5000 (js ''1'') (JStr (js ''New title'')) JNull example_state
       = put_notes_id 5000 (js ''1'') (JStr (js ''New title'')) (JStr []) example_state"
    using r2 [THEN conjunct2, THEN conjunct2, THEN conjunct2, THEN conjunct2, THEN conjunct2] by simp
  from f1 c1 c2 c3 c4 c5 c6 show ?thesis by simp
qed

text \<open>
  The claim as it was stated fails for a client that has used up its five requests: its
  create with a number as the title is answered RateLimited, not ValidationFailed.
\<close>

theorem nonstring_create_over_limit:
  "isString (JNum 5) = False
   \<and> post_notes 2000 2000 2000 None (JNum 5) (JStr (js ''text'')) busy_state = (RateLimited, busy_state)"
  using post_notes_limited [of 2000 busy_state None 2000 2000 "JNum 5" "JStr (js ''text'')"]
  by (simp add: busy_state_record validTimestamps_def MAX_NOTES_PER_MINUTE_def RATE_LIMIT_WINDOW_def)

section \<open>What the two mutating handlers do to the store\<close>

lemma post_notes_store:
  "(notes (snd (post_notes now tc tu ip a b s)) = notes s \<and>
    noteIdCounter (snd (post_notes now tc tu ip a b s)) = noteIdCounter s \<and>
    (\<forall>n. fst (post_notes now tc tu ip a b s) \<noteq> Created n))
   \<or> (cleanString a \<noteq> [] \<and> cleanString b \<noteq> [] \<and>
       fst (post_notes now tc tu ip a b s) =
         Created \<lparr>note_id = noteIdCounter s, title = cleanString a, content = cleanString b,
                   created_at = tc, updated_at = tu\<rparr> \<and>
       notes (snd (post_notes now tc tu ip a b s)) =
         notes s @ [\<lparr>note_id = noteIdCounter s, title = cleanString a, content = cleanString b,
                      created_at = tc, updated_at = tu\<rparr>] \<and>
       noteIdCounter (snd (post_notes now tc tu ip a b s)) = noteIdCounter s + 1)"
proof (cases "MAX_NOTES_PER_MINUTE \<le> length (validTimestamps now (clientRecord s ip))")
  case True
  then show ?thesis by (simp add: post_notes_limited)
next
  case False
  then have passed: "length (validTimestamps now (clientRecord s ip)) < MAX_NOTES_PER_MINUTE"
    by simp
  show ?thesis
    by (cases "cleanString a \<noteq> [] \<and> cleanString b \<noteq> []")
       (simp_all add: post_notes_passed [OF passed] createNote_valid createNote_invalid)
qed

lemma put_notes_id_ids:
  "map note_id (notes (snd (put_notes_id t rid a b s))) = map note_id (notes s) \<and>
   noteIdCounter (snd (put_notes_id t rid a b s)) = noteIdCounter s \<and>
   rateLimitMap (snd (put_notes_id t rid a b s)) = rateLimitMap s"
proof (cases "findIndex (\<lambda>n. Some (int (note_id n)) = parseInt rid) (notes s)")
  case None
  then show ?thesis by (simp add: put_notes_id_missing)
next
  case (Some i)
  then have "i < length (notes s)" by (simp add: findIndex_Some)
  then have "(map note_id (notes s))[i := note_id (notes s ! i)] = map note_id (notes s)"
    by (simp add: list_update_same_conv)
  then show ?thesis
    by (simp add: put_notes_id_found [OF Some] map_update)
qed

lemma put_notes_id_clean:
  assumes "notes_clean s"
  shows "notes_clean (snd (put_notes_id t rid a b s))"
proof (cases "findIndex (\<lambda>n. Some (int (note_id n)) = parseInt rid) (notes s)")
  case None
  with assms show ?thesis by (simp add: put_notes_id_missing)
next
  case (Some i)
  then have "i < length (notes s)" by (simp add: findIndex_Some)
  with assms have old: "stored_ok (title (notes s ! i))" "stored_ok (content (notes s ! i))"
    by (simp_all add: notes_clean_def list_all_length)
  have upd: "list_all P (xs[i := y])" if "list_all P xs" "P y" for P :: "note \<Rightarrow> bool" and xs y
    using that set_update_subset_insert [of xs i y] by (auto simp: list_all_iff)
  from assms old show ?thesis
    by (auto simp: put_notes_id_found [OF Some] notes_clean_def stored_ok_cleanString intro!: upd)
qed

lemma post_notes_clean:
  assumes "notes_clean s"
  shows "notes_clean (snd (post_notes now tc tu ip a b s))"
  using assms post_notes_store [of now tc tu ip a b s]
  by (auto simp: notes_clean_def stored_ok_cleanString)

lemma reachable_clean: "reachable s \<Longrightarrow> notes_clean s"
proof (induction rule: reachable.induct)
  case start
  show ?case by (simp add: notes_clean_def initial_state_def)
next
  case (post s now t_created t_updated ip rtitle rcontent)
  then show ?case by (simp add: post_notes_clean)
next
  case (list s)
  then show ?case by (simp add: get_notes_state)
next
  case (put s t_now rid rtitle rcontent)
  then show ?case by (simp add: put_notes_id_clean)
next
  case (search s query)
  then show ?case by (simp add: get_notes_search_state)
qed

lemma reachable_ids: "reachable s \<Longrightarrow> map note_id (notes s) = [1..<noteIdCounter s] \<and> 1 \<le> noteIdCounter s"
proof (induction rule: reachable.induct)
  case start
  show ?case by (simp add: initial_state_def)
next
  case (post s now t_created t_updated ip rtitle rcontent)
  with post_notes_store [of now t_created t_updated ip rtitle rcontent s] show ?case
    by auto
next
  case (list s)
  then show ?case by (simp add: get_notes_state)
next
  case (put s t_now rid rtitle rcontent)
  then show ?case by (simp add: put_notes_id_ids)
next
  case (search s query)
  then show ?case by (simp add: get_notes_search_state)
qed

section \<open>Stored titles and contents\<close>

text \<open>
  C4. In every state the server can reach, the title and the content of every stored note
  are not empty, not made of white space only, and neither start nor end with white space.
  The property holds at the start and is kept by create and by update, the only handlers
  that change the store.
\<close>

theorem stored_texts_trimmed:
  "(reachable s \<longrightarrow>
      (\<forall>n\<in>set (notes s).
         title n \<noteq> [] \<and> \<not> list_all isWhiteSpace (title n) \<and>
         \<not> isWhiteSpace (hd (title n)) \<and> \<not> isWhiteSpace (last (title n)) \<and>
         content n \<noteq> [] \<and> \<not> list_all isWhiteSpace (content n) \<and>
         \<not> isWhiteSpace (hd (content n)) \<and> \<not> isWhiteSpace (last (content n))))
   \<and> notes_clean initial_state
   \<and> (notes_clean s \<longrightarrow> notes_clean (snd (post_notes now tc tu ip a b s)))
   \<and> (notes_clean s \<longrightarrow> notes_clean (snd (put_notes_id t rid a b s)))
   \<and> snd (get_notes s) = s \<and> snd (get_notes_search lower q s) = s"
proof -
  have "\<forall>n\<in>set (notes s). stored_ok (title n) \<and> stored_ok (content n)" if "reachable s"
    using reachable_clean [OF that] by (simp add: notes_clean_def list_all_iff)
  then have always: "reachable s \<longrightarrow>
      (\<forall>n\<in>set (notes s).
         title n \<noteq> [] \<and> \<not> list_all isWhiteSpace (title n) \<and>
         \<not> isWhiteSpace (hd (title n)) \<and> \<not> isWhiteSpace (last (title n)) \<and>
         content n \<noteq> [] \<and> \<not> list_all isWhiteSpace (content n) \<and>
         \<not> isWhiteSpace (hd (content n)) \<and> \<not> isWhiteSpace (last (content n)))"
    by (simp add: stored_ok_def)
  have first: "notes_clean initial_state"
    by (simp add: notes_clean_def initial_state_def)
  from always first show ?thesis
    by (simp add: post_notes_clean put_notes_id_clean get_notes_state get_notes_search_state)
qed

theorem stored_texts_trimmed_witness:
  "reachable example_state \<and> notes_clean example_state
   \<and> list_all (\<lambda>n. title n \<noteq> [] \<and> \<not> list_all isWhiteSpace (title n) \<and>
         \<not> isWhiteSpace (hd (title n)) \<and> \<not> isWhiteSpace (last (title n)) \<and>
         content n \<noteq> [] \<and> \<not> list_all isWhiteSpace (content n) \<and>
         \<not> isWhiteSpace (hd (content n)) \<and> \<not> isWhiteSpace (last (content n))) (notes example_state)
   \<and> notes_clean (snd (post_notes 5000 5000 5000 None (JStr (js ''  Draft '')) (JStr (js '' text '')) example_state))
   \<and> notes_clean (snd (put_notes_id 5000 (js ''1'') (JStr (js ''  Agenda '')) JUndefined example_state))"
proof -
  have clean: "notes_clean example_state"
    by (simp add: notes_clean_def stored_ok_def example_state_def example_note_def isWhiteSpace_def js_def)
  note r1 = stored_texts_trimmed [of example_state 5000 5000 5000 None "JStr (js ''  Draft '')" "JStr (js '' text '')"]
  note r2 = stored_texts_trimmed [of example_state _ _ _ _ "JStr (js ''  Agenda '')" JUndefined 5000 "js ''1''"]
  from r1 reachable_example_state clean r2 show ?thesis
    by (simp add: list_all_iff)
qed

section \<open>Note identifiers\<close>

text \<open>
  C5. The counter starts at 1; a created note gets the value of the counter, which then
  goes up by one. In every state the server can reach, the identifiers of the stored notes,
  in the order of creation, are 1, 2, ... up to the counter minus one: they are pairwise
  distinct, strictly increasing, and all below the next identifier to be given out. Create
  keeps the stored identifiers and appends at most one; update keeps all identifiers and
  the counter. So no identifier is given twice.
\<close>

theorem note_ids_sequential:
  "noteIdCounter initial_state = 1 \<and> notes initial_state = []
   \<and> (reachable s \<longrightarrow>
        map note_id (notes s) = [1..<noteIdCounter s] \<and>
        distinct (map note_id (notes s)) \<and>
        sorted_wrt (<) (map note_id (notes s)) \<and>
        list_all (\<lambda>n. note_id n < noteIdCounter s) (notes s))
   \<and> (fst (post_notes now tc tu ip a b s) = Created n \<longrightarrow>
        note_id n = noteIdCounter s \<and>
        notes (snd (post_notes now tc tu ip a b s)) = notes s @ [n] \<and>
        noteIdCounter (snd (post_notes now tc tu ip a b s)) = noteIdCounter s + 1)
   \<and> prefix (notes s) (notes (snd (post_notes now tc tu ip a b s)))
   \<and> noteIdCounter s \<le> noteIdCounter (snd (post_notes now tc tu ip a b s))
   \<and> map note_id (notes (snd (put_notes_id t rid a b s))) = map note_id (notes s)
   \<and> noteIdCounter (snd (put_notes_id t rid a b s)) = noteIdCounter s"
proof -
  have seq: "map note_id (notes s) = [1..<noteIdCounter s] \<and>
        distinct (map note_id (notes s)) \<and>
        sorted_wrt (<) (map note_id (notes s)) \<and>
        list_all (\<lambda>n. note_id n < noteIdCounter s) (notes s)" if "reachable s"
  proof -
    from reachable_ids [OF that] have eq: "map note_id (notes s) = [1..<noteIdCounter s]"
      by simp
    have "\<forall>n\<in>set (notes s). note_id n \<in> set (map note_id (notes s))"
      by simp
    then have "\<forall>n\<in>set (notes s). note_id n < noteIdCounter s"
      unfolding eq by simp
    then show ?thesis
      by (simp add: eq list_all_iff)
  qed
  from seq post_notes_store [of now tc tu ip a b s] put_notes_id_ids [of t rid a b s]
  show ?thesis
    by (auto simp: initial_state_def)
qed

theorem note_ids_sequential_witness:
  "reachable busy_state
   \<and> map note_id (notes busy_state) = [1, 2, 3, 4, 5] \<and> noteIdCounter busy_state = 6
   \<and> distinct (map note_id (notes busy_state))
   \<and> sorted_wrt (<) (map note_id (notes busy_state))
   \<and> list_all (\<lambda>n. note_id n < 6) (notes busy_state)
   \<and> fst (post_notes 70000 70000 70000 None (JStr (js ''n6'')) (JStr (js ''c6'')) busy_state)
       = Created \<lparr>note_id = 6, title = js ''n6'', content = js ''c6'', created_at = 70000, updated_at = 70000\<rparr>
   \<and> noteIdCounter (snd (post_notes 70000 70000 70000 None (JStr (js ''n6'')) (JStr (js ''c6'')) busy_state)) = 7
   \<and> map note_id (notes (snd (post_notes 70000 70000 70000 None (JStr (js ''n6'')) (JStr (js ''c6'')) busy_state)))
       = [1, 2, 3, 4, 5, 6]"
proof -
  have counter: "noteIdCounter busy_state = 6"
    by (simp add: busy_state_def initial_state_def handler_eval)
  have upt: "[1..<6] = [1, 2, 3, 4, 5::nat]"
    by (simp add: upt_rec)
  have created: "fst (post_notes 70000 70000 70000 None (JStr (js ''n6'')) (JStr (js ''c6'')) busy_state)
       = Created \<lparr>note_id = 6, title = js ''n6'', content = js ''c6'', created_at = 70000, updated_at = 70000\<rparr>"
    using post_notes_store [of 70000 70000 70000 None "JStr (js ''n6'')" "JStr (js ''c6'')" busy_state]
    by (simp add: post_notes_RateLimited_iff post_notes_passed createNote_valid busy_state_record counter
                  validTimestamps_def MAX_NOTES_PER_MINUTE_def RATE_LIMIT_WINDOW_def trim_def isWhiteSpace_def js_def)
  note r = note_ids_sequential [of busy_state 70000 70000 70000 None "JStr (js ''n6'')" "JStr (js ''c6'')"
             "\<lparr>note_id = 6, title = js ''n6'', content = js ''c6'', created_at = 70000, updated_at = 70000\<rparr>"]
  from r reachable_busy_state created counter upt show ?thesis
    by simp
qed

section \<open>Updates\<close>

text \<open>
  C6. In a state the server can reach, an update of an existing note in which every
  provided field, once cleaned, equals the stored one answers with the "no changes"
  response carrying the stored note, and the state afterwards is the state before: the
  note, its \<open>updated_at\<close> included, is untouched.
\<close>

theorem unchanged_update_is_noop:
  assumes "reachable s"
    and "findIndex (\<lambda>n. Some (int (note_id n)) = parseInt rid) (notes s) = Some i"
    and "a = JUndefined \<or> cleanString a = title (notes s ! i)"
    and "b = JUndefined \<or> cleanString b = content (notes s ! i)"
  shows "put_notes_id t rid a b s = (NoChanges (notes s ! i), s)"
proof -
  from assms(2) have "i < length (notes s)"
    by (simp add: findIndex_Some)
  with reachable_clean [OF assms(1)]
  have "stored_ok (title (notes s ! i))" "stored_ok (content (notes s ! i))"
    by (simp_all add: notes_clean_def list_all_length)
  then have "title (notes s ! i) \<noteq> []" "content (notes s ! i) \<noteq> []"
    by (simp_all add: stored_ok_def)
  with assms(3,4) show ?thesis
    by (auto simp: put_notes_id_found [OF assms(2)])
qed

theorem unchanged_update_is_noop_witness:
  "reachable example_state
   \<and> cleanString (JStr (js ''  Meeting Notes '')) = title example_note
   \<and> put_notes_id 5000 (js ''1'') (JStr (js ''  Meeting Notes '')) JUndefined example_state
       = (NoChanges example_note, example_state)
   \<and> updated_at example_note = 1000"
proof -
  have found: "findIndex (\<lambda>n. Some (int (note_id n)) = parseInt (js ''1'')) (notes example_state) = Some 0"
    by (simp add: example_state_def example_note_def parseInt_eval)
  have same: "JStr (js ''  Meeting Notes '') = JUndefined \<or>
      cleanString (JStr (js ''  Meeting Notes '')) = title (notes example_state ! 0)"
    by (simp add: example_state_def example_note_def trim_def isWhiteSpace_def js_def)
  have absent: "JUndefined = JUndefined \<or> cleanString JUndefined = content (notes example_state ! 0)"
    by simp
  have first: "notes example_state ! 0 = example_note"
    by (simp add: example_state_def)
  have stamp: "updated_at example_note = 1000"
    by (simp add: example_note_def)
  from unchanged_update_is_noop [OF reachable_example_state found same absent, of 5000] same
  show ?thesis
    by (simp add: reachable_example_state first stamp)
qed

text \<open>
  C7. An update of an existing note in which every provided field is valid and at least one
  provided field, once cleaned, differs from the stored one answers "updated": the note
  returned has the cleaned value in each field that differs and the stored value in the
  other, the stored identifier and \<open>created_at\<close>, and the time of the update as
  \<open>updated_at\<close>; \<open>updated_fields\<close> lists the fields that differ, title before content;
  the new note replaces the old one at its place and nothing else changes. So a different
  title with an absent or unchanged content gives exactly the list with \<open>title\<close>.
  Conversely, whenever an update answers "updated", the note it found is the first one
  with the identifier of the path and all of the above holds of the answer.
\<close>

theorem update_lists_changed_fields:
  "(findIndex (\<lambda>n. Some (int (note_id n)) = parseInt rid) (notes s) = Some i \<and>
    (a = JUndefined \<or> cleanString a \<noteq> []) \<and> (b = JUndefined \<or> cleanString b \<noteq> []) \<and>
    ((a \<noteq> JUndefined \<and> cleanString a \<noteq> title (notes s ! i)) \<or>
     (b \<noteq> JUndefined \<and> cleanString b \<noteq> content (notes s ! i))) \<longrightarrow>
      put_notes_id t rid a b s =
        (Updated
           ((notes s ! i)
              \<lparr>title := (if a \<noteq> JUndefined \<and> cleanString a \<noteq> title (notes s ! i)
                         then cleanString a else title (notes s ! i)),
               content := (if b \<noteq> JUndefined \<and> cleanString b \<noteq> content (notes s ! i)
                           then cleanString b else content (notes s ! i)),
               updated_at := t\<rparr>)
           ((if a \<noteq> JUndefined \<and> cleanString a \<noteq> title (notes s ! i) then [''title''] else []) @
            (if b \<noteq> JUndefined \<and> cleanString b \<noteq> content (notes s ! i) then [''content''] else [])),
         s\<lparr>notes := (notes s)[i := (notes s ! i)
              \<lparr>title := (if a \<noteq> JUndefined \<and> cleanString a \<noteq> title (notes s ! i)
                         then cleanString a else title (notes s ! i)),
               content := (if b \<noteq> JUndefined \<and> cleanString b \<noteq> content (notes s ! i)
                           then cleanString b else content (notes s ! i)),
               updated_at := t\<rparr>]\<rparr>))
   \<and> (reachable s \<and>
      findIndex (\<lambda>n. Some (int (note_id n)) = parseInt rid) (notes s) = Some i \<and>
      cleanString a \<noteq> [] \<and> cleanString a \<noteq> title (notes s ! i) \<and>
      (b = JUndefined \<or> cleanString b = content (notes s ! i)) \<longrightarrow>
        put_notes_id t rid a b s =
          (Updated ((notes s ! i)\<lparr>title := cleanString a, updated_at := t\<rparr>) [''title''],
           s\<lparr>notes := (notes s)[i := (notes s ! i)\<lparr>title := cleanString a, updated_at := t\<rparr>]\<rparr>))
   \<and> (put_notes_id t rid a b s = (Updated n' fs, s') \<longrightarrow>
      (\<exists>j. findIndex (\<lambda>n. Some (int (note_id n)) = parseInt rid) (notes s) = Some j \<and>
        j < length (notes s) \<and>
        fs = (if a \<noteq> JUndefined \<and> cleanString a \<noteq> title (notes s ! j) then [''title''] else []) @
             (if b \<noteq> JUndefined \<and> cleanString b \<noteq> content (notes s ! j) then [''content''] else []) \<and>
        fs \<noteq> [] \<and>
        title n' = (if ''title'' \<in> set fs then cleanString a else title (notes s ! j)) \<and>
        content n' = (if ''content'' \<in> set fs then cleanString b else content (notes s ! j)) \<and>
        note_id n' = note_id (notes s ! j) \<and>
        created_at n' = created_at (notes s ! j) \<and>
        updated_at n' = t \<and>
        s' = s\<lparr>notes := (notes s)[j := n']\<rparr>))"
proof -
  have forward: "put_notes_id t rid a b s =
        (Updated
           ((notes s ! i)
              \<lparr>title := (if a \<noteq> JUndefined \<and> cleanString a \<noteq> title (notes s ! i)
                         then cleanString a else title (notes s ! i)),
               content := (if b \<noteq> JUndefined \<and> cleanString b \<noteq> content (notes s ! i)
                           then cleanString b else content (notes s ! i)),
               updated_at := t\<rparr>)
           ((if a \<noteq> JUndefined \<and> cleanString a \<noteq> title (notes s ! i) then [''title''] else []) @
            (if b \<noteq> JUndefined \<and> cleanString b \<noteq> content (notes s ! i) then [''content''] else [])),
         s\<lparr>notes := (notes s)[i := (notes s ! i)
              \<lparr>title := (if a \<noteq> JUndefined \<and> cleanString a \<noteq> title (notes s ! i)
                         then cleanString a else title (notes s ! i)),
               content := (if b \<noteq> JUndefined \<and> cleanString b \<noteq> content (notes s ! i)
                           then cleanString b else content (notes s ! i)),
               updated_at := t\<rparr>]\<rparr>)"
    if found: "findIndex (\<lambda>n. Some (int (note_id n)) = parseInt rid) (notes s) = Some i"
      and va: "a = JUndefined \<or> cleanString a \<noteq> []"
      and vb: "b = JUndefined \<or> cleanString b \<noteq> []"
      and ch: "(a \<noteq> JUndefined \<and> cleanString a \<noteq> title (notes s ! i)) \<or>
               (b \<noteq> JUndefined \<and> cleanString b \<noteq> content (notes s ! i))"
  proof -
    from va have 1: "\<not> (a \<noteq> JUndefined \<and> cleanString a = [])" by blast
    from vb have 2: "\<not> (b \<noteq> JUndefined \<and> cleanString b = [])" by blast
    from ch have 3: "\<not> (\<not> (a \<noteq> JUndefined \<and> cleanString a \<noteq> title (notes s ! i)) \<and>
                        \<not> (b \<noteq> JUndefined \<and> cleanString b \<noteq> content (notes s ! i)))" by blast
    show ?thesis
      unfolding put_notes_id_found [OF found] if_not_P [OF 1] if_not_P [OF 2] if_not_P [OF 3]
      by (rule refl)
  qed
  have title_only: "put_notes_id t rid a b s =
          (Updated ((notes s ! i)\<lparr>title := cleanString a, updated_at := t\<rparr>) [''title''],
           s\<lparr>notes := (notes s)[i := (notes s ! i)\<lparr>title := cleanString a, updated_at := t\<rparr>]\<rparr>)"
    if reach: "reachable s"
      and found: "findIndex (\<lambda>n. Some (int (note_id n)) = parseInt rid) (notes s) = Some i"
      and ta: "cleanString a \<noteq> []" "cleanString a \<noteq> title (notes s ! i)"
      and tb: "b = JUndefined \<or> cleanString b = content (notes s ! i)"
  proof -
    from ta have au: "a \<noteq> JUndefined" by auto
    from found have "i < length (notes s)"
      by (simp add: findIndex_Some)
    with reachable_clean [OF reach] have "stored_ok (content (notes s ! i))"
      by (simp add: notes_clean_def list_all_length)
    then have "content (notes s ! i) \<noteq> []"
      by (simp add: stored_ok_def)
    with tb have vb: "b = JUndefined \<or> cleanString b \<noteq> []"
      and nb: "\<not> (b \<noteq> JUndefined \<and> cleanString b \<noteq> content (notes s ! i))"
      by auto
    from au ta have va: "a = JUndefined \<or> cleanString a \<noteq> []"
      and ca: "a \<noteq> JUndefined \<and> cleanString a \<noteq> title (notes s ! i)"
      by auto
    from ca have ch: "(a \<noteq> JUndefined \<and> cleanString a \<noteq> title (notes s ! i)) \<or>
               (b \<noteq> JUndefined \<and> cleanString b \<noteq> content (notes s ! i))" by blast
    show ?thesis
      unfolding forward [OF found va vb ch] if_P [OF ca] if_not_P [OF nb]
      by simp
  qed
  have backward: "\<exists>j. findIndex (\<lambda>n. Some (int (note_id n)) = parseInt rid) (notes s) = Some j \<and>
        j < length (notes s) \<and>
        fs = (if a \<noteq> JUndefined \<and> cleanString a \<noteq> title (notes s ! j) then [''title''] else []) @
             (if b \<noteq> JUndefined \<and> cleanString b \<noteq> content (notes s ! j) then [''content''] else []) \<and>
        fs \<noteq> [] \<and>
        title n' = (if ''title'' \<in> set fs then cleanString a else title (notes s ! j)) \<and>
        content n' = (if ''content'' \<in> set fs then cleanString b else content (notes s ! j)) \<and>
        note_id n' = note_id (notes s ! j) \<and>
        created_at n' = created_at (notes s ! j) \<and>
        updated_at n' = t \<and>
        s' = s\<lparr>notes := (notes s)[j := n']\<rparr>"
    if run: "put_notes_id t rid a b s = (Updated n' fs, s')"
  proof (cases "findIndex (\<lambda>n. Some (int (note_id n)) = parseInt rid) (notes s)")
    case None
    with run show ?thesis by (simp add: put_notes_id_missing)
  next
    case (Some j)
    then have len: "j < length (notes s)" by (simp add: findIndex_Some)
    define ct where "ct \<longleftrightarrow> a \<noteq> JUndefined \<and> cleanString a \<noteq> title (notes s ! j)"
    define cc where "cc \<longleftrightarrow> b \<noteq> JUndefined \<and> cleanString b \<noteq> content (notes s ! j)"
    define N where "N = (notes s ! j)
                \<lparr>title := (if ct then cleanString a else title (notes s ! j)),
                 content := (if cc then cleanString b else content (notes s ! j)),
                 updated_at := t\<rparr>"
    define F where "F = (if ct then [''title''] else []) @ (if cc then [''content''] else [])"
    have eq: "put_notes_id t rid a b s =
       (if a \<noteq> JUndefined \<and> cleanString a = [] then (ValidationFailed [''Title cannot be empty or just spaces''], s)
        else if b \<noteq> JUndefined \<and> cleanString b = [] then (ValidationFailed [''Content cannot be empty or just spaces''], s)
        else if \<not> ct \<and> \<not> cc then (NoChanges (notes s ! j), s)
        else (Updated N F, s\<lparr>notes := (notes s)[j := N]\<rparr>))"
      unfolding ct_def cc_def N_def F_def by (rule put_notes_id_found [OF Some])
    from run have parts: "ct \<or> cc" "n' = N" "fs = F" "s' = s\<lparr>notes := (notes s)[j := N]\<rparr>"
      unfolding eq by (auto split: if_splits)
    have "fs \<noteq> []"
      using parts(1) by (auto simp: parts(3) F_def)
    moreover have "title n' = (if ''title'' \<in> set fs then cleanString a else title (notes s ! j))"
      by (simp add: parts(2,3) N_def F_def)
    moreover have "content n' = (if ''content'' \<in> set fs then cleanString b else content (notes s ! j))"
      by (simp add: parts(2,3) N_def F_def)
    moreover have "note_id n' = note_id (notes s ! j)" "created_at n' = created_at (notes s ! j)"
      "updated_at n' = t"
      by (simp_all add: parts(2) N_def)
    moreover have "fs = (if a \<noteq> JUndefined \<and> cleanString a \<noteq> title (notes s ! j) then [''title''] else []) @
             (if b \<noteq> JUndefined \<and> cleanString b \<noteq> content (notes s ! j) then [''content''] else [])"
      by (simp add: parts(3) F_def ct_def cc_def)
    moreover have "s' = s\<lparr>notes := (notes s)[j := n']\<rparr>"
      by (simp add: parts(2,4))
    ultimately show ?thesis
      using Some len by blast
  qed
  from forward title_only backward show ?thesis
    by blast
qed

theorem update_lists_changed_fields_witness:
  "reachable example_state
   \<and> findIndex (\<lambda>n. Some (int (note_id n)) = parseInt (js ''1'')) (notes example_state) = Some 0
   \<and> put_notes_id 5000 (js ''1'') (JStr (js ''  Agenda '')) JUndefined example_state =
       (Updated (example_note\<lparr>title := js ''Agenda'', updated_at := 5000\<rparr>) [''title''],
        example_state\<lparr>notes := [example_note\<lparr>title := js ''Agenda'', updated_at := 5000\<rparr>]\<rparr>)
   \<and> put_notes_id 5000 (js ''1'') (JStr (js ''  Agenda '')) (JStr (js ''Discussed hiring plan'')) example_state =
       (Updated (example_note\<lparr>title := js ''Agenda'', updated_at := 5000\<rparr>) [''title''],
        example_state\<lparr>notes := [example_note\<lparr>title := js ''Agenda'', updated_at := 5000\<rparr>]\<rparr>)
   \<and> put_notes_id 5000 (js ''1'') (JStr (js ''Agenda'')) (JStr (js '' Budget '')) example_state =
       (Updated (example_note\<lparr>title := js ''Agenda'', content := js ''Budget'', updated_at := 5000\<rparr>)
          [''title'', ''content''],
        example_state\<lparr>notes := [example_note\<lparr>title := js ''Agenda'', content := js ''Budget'',
                                               updated_at := 5000\<rparr>]\<rparr>)
   \<and> content (example_note\<lparr>title := js ''Agenda'', updated_at := 5000\<rparr>) = js ''Discussed hiring plan''
   \<and> created_at (example_note\<lparr>title := js ''Agenda'', updated_at := 5000\<rparr>) = 1000"
proof -
  have found: "findIndex (\<lambda>n. Some (int (note_id n)) = parseInt (js ''1'')) (notes example_state) = Some 0"
    by (simp add: example_state_def example_note_def parseInt_eval)
  have first: "notes example_state ! 0 = example_note" "notes example_state = [example_note]"
    by (simp_all add: example_state_def)
  have fields: "title example_note = js ''Meeting Notes''" "content example_note = js ''Discussed hiring plan''"
    "created_at example_note = 1000"
    by (simp_all add: example_note_def)
  have clean: "trim (js ''  Agenda '') = js ''Agenda''"
    "trim (js ''Agenda'') = js ''Agenda''"
    "trim (js ''Discussed hiring plan'') = js ''Discussed hiring plan''"
    "trim (js '' Budget '') = js ''Budget''"
    by (simp_all add: trim_def isWhiteSpace_def js_def)
  have differ: "js ''Agenda'' \<noteq> js ''Meeting Notes''" "js ''Agenda'' \<noteq> []"
    "js ''Budget'' \<noteq> js ''Discussed hiring plan''" "js ''Budget'' \<noteq> []"
    by (simp_all add: js_def)
  note r1 = update_lists_changed_fields [of "js ''1''" example_state 0 "JStr (js ''  Agenda '')" JUndefined 5000,
              THEN conjunct2, THEN conjunct1]
  note r2 = update_lists_changed_fields [of "js ''1''" example_state 0 "JStr (js ''  Agenda '')"
              "JStr (js ''Discussed hiring plan'')" 5000, THEN conjunct2, THEN conjunct1]
  note r3 = update_lists_changed_fields [of "js ''1''" example_state 0 "JStr (js ''Agenda'')"
              "JStr (js '' Budget '')" 5000, THEN conjunct1]
  have c1: "put_notes_id 5000 (js ''1'') (JStr (js ''  Agenda '')) JUndefined example_state =
       (Updated (example_note\<lparr>title := js ''Agenda'', updated_at := 5000\<rparr>) [''title''],
        example_state\<lparr>notes := [example_note\<lparr>title := js ''Agenda'', updated_at := 5000\<rparr>]\<rparr>)"
    using r1 reachable_example_state found differ
    by (simp add: first fields clean)
  have c2: "put_notes_id 5000 (js ''1'') (JStr (js ''  Agenda '')) (JStr (js ''Discussed hiring plan'')) example_state =
       (Updated (example_note\<lparr>title := js ''Agenda'', updated_at := 5000\<rparr>) [''title''],
        example_state\<lparr>notes := [example_note\<lparr>title := js ''Agenda'', updated_at := 5000\<rparr>]\<rparr>)"
    using r2 reachable_example_state found differ
    by (simp add: first fields clean)
  have c3: "put_notes_id 5000 (js ''1'') (JStr (js ''Agenda'')) (JStr (js '' Budget '')) example_state =
       (Updated (example_note\<lparr>title := js ''Agenda'', content := js ''Budget'', updated_at := 5000\<rparr>)
          [''title'', ''content''],
        example_state\<lparr>notes := [example_note\<lparr>title := js ''Agenda'', content := js ''Budget'',
                                               updated_at := 5000\<rparr>]\<rparr>)"
    using r3 found differ
    by (simp add: first fields clean)
  note conv = update_lists_changed_fields [of "js ''1''" example_state 0 "JStr (js ''  Agenda '')" JUndefined 5000
                "example_note\<lparr>title := js ''Agenda'', updated_at := 5000\<rparr>" "[''title'']"
                "example_state\<lparr>notes := [example_note\<lparr>title := js ''Agenda'', updated_at := 5000\<rparr>]\<rparr>",
                THEN conjunct2, THEN conjunct2]
  from conv c1 have "created_at (example_note\<lparr>title := js ''Agenda'', updated_at := 5000\<rparr>) = 1000"
    by (auto simp: found first fields)
  with c1 c2 c3 found reachable_example_state show ?thesis
    by (simp add: fields)
qed

section \<open>Listing and searching\<close>














lemma dotted_state_reachable:
  "dotted_state = snd (post_notes 1000 1000 1000 None (JStr [304]) (JStr (js ''x'')) initial_state)"
  by (simp add: dotted_state_def dotted_note_def initial_state_def handler_eval)

lemma reachable_dotted_state: "reachable dotted_state"
  unfolding dotted_state_reachable by (rule reachable.post [OF reachable.start])


section \<open>The sliding window\<close>

lemma createNote_rateLimitMap: "rateLimitMap (snd (createNote tc tu a b s)) = rateLimitMap s"
  by (cases "cleanString a \<noteq> [] \<and> cleanString b \<noteq> []")
     (simp_all add: createNote_valid createNote_invalid)

lemma post_notes_record:
  assumes "length (validTimestamps now (clientRecord s ip)) < MAX_NOTES_PER_MINUTE"
  shows "fst (post_notes now tc tu ip a b s) \<noteq> RateLimited"
    and "clientRecord (snd (post_notes now tc tu ip a b s)) ip = validTimestamps now (clientRecord s ip) @ [now]"
  using assms
  by (simp_all add: post_notes_passed createNote_response createNote_rateLimitMap clientRecord_def)

lemma posts_Cons:
  "fst (posts ip ((t, a, b) # reqs) s) =
     fst (post_notes t t t ip a b s) # fst (posts ip reqs (snd (post_notes t t t ip a b s)))"
  by (simp add: split_beta Let_def)

lemma rateLimiter_algorithm:
  "rateLimiter now ip nxt s =
     (let kept = filter (\<lambda>timestamp. now - RATE_LIMIT_WINDOW < timestamp) (clientRecord s ip)
      in if MAX_NOTES_PER_MINUTE \<le> length kept then (RateLimited, s)
         else nxt (s\<lparr>rateLimitMap := (rateLimitMap s)(clientId ip \<mapsto> kept @ [now])\<rparr>))"
proof -
  have kept: "filter (\<lambda>timestamp. now - RATE_LIMIT_WINDOW < timestamp) (clientRecord s ip)
      = validTimestamps now (clientRecord s ip)"
    unfolding validTimestamps_def by (rule filter_cong) auto
  show ?thesis
    unfolding Let_def kept
    by (cases "MAX_NOTES_PER_MINUTE \<le> length (validTimestamps now (clientRecord s ip))")
       (simp_all add: rateLimiter_reject rateLimiter_accept)
qed

lemma six_in_a_window:
  assumes fresh: "validTimestamps t1 (clientRecord s ip) = []"
    and order: "t1 \<le> t2" "t2 \<le> t3" "t3 \<le> t4" "t4 \<le> t5" "t5 \<le> t6"
    and within: "t6 - t1 < RATE_LIMIT_WINDOW"
    and later: "RATE_LIMIT_WINDOW \<le> t7 - t5"
  shows "map (\<lambda>r. r = RateLimited)
           (fst (posts ip [(t1, a1, b1), (t2, a2, b2), (t3, a3, b3), (t4, a4, b4),
                           (t5, a5, b5), (t6, a6, b6), (t7, a7, b7)] s))
         = [False, False, False, False, False, True, False]"
proof -
  define s1 where "s1 = snd (post_notes t1 t1 t1 ip a1 b1 s)"
  define s2 where "s2 = snd (post_notes t2 t2 t2 ip a2 b2 s1)"
  define s3 where "s3 = snd (post_notes t3 t3 t3 ip a3 b3 s2)"
  define s4 where "s4 = snd (post_notes t4 t4 t4 ip a4 b4 s3)"
  define s5 where "s5 = snd (post_notes t5 t5 t5 ip a5 b5 s4)"
  have p1: "length (validTimestamps t1 (clientRecord s ip)) < MAX_NOTES_PER_MINUTE"
    by (simp add: fresh MAX_NOTES_PER_MINUTE_def)
  have r1: "clientRecord s1 ip = [t1]"
    unfolding s1_def by (simp add: post_notes_record(2) [OF p1] fresh)
  have v2: "validTimestamps t2 (clientRecord s1 ip) = [t1]"
    using order within by (simp add: r1 validTimestamps_def)
  then have p2: "length (validTimestamps t2 (clientRecord s1 ip)) < MAX_NOTES_PER_MINUTE"
    by (simp add: MAX_NOTES_PER_MINUTE_def)
  have r2: "clientRecord s2 ip = [t1, t2]"
    unfolding s2_def by (simp add: post_notes_record(2) [OF p2] v2)
  have v3: "validTimestamps t3 (clientRecord s2 ip) = [t1, t2]"
    using order within by (simp add: r2 validTimestamps_def)
  then have p3: "length (validTimestamps t3 (clientRecord s2 ip)) < MAX_NOTES_PER_MINUTE"
    by (simp add: MAX_NOTES_PER_MINUTE_def)
  have r3: "clientRecord s3 ip = [t1, t2, t3]"
    unfolding s3_def by (simp add: post_notes_record(2) [OF p3] v3)
  have v4: "validTimestamps t4 (clientRecord s3 ip) = [t1, t2, t3]"
    using order within by (simp add: r3 validTimestamps_def)
  then have p4: "length (validTimestamps t4 (clientRecord s3 ip)) < MAX_NOTES_PER_MINUTE"
    by (simp add: MAX_NOTES_PER_MINUTE_def)
  have r4: "clientRecord s4 ip = [t1, t2, t3, t4]"
    unfolding s4_def by (simp add: post_notes_record(2) [OF p4] v4)
  have v5: "validTimestamps t5 (clientRecord s4 ip) = [t1, t2, t3, t4]"
    using order within by (simp add: r4 validTimestamps_def)
  then have p5: "length (validTimestamps t5 (clientRecord s4 ip)) < MAX_NOTES_PER_MINUTE"
    by (simp add: MAX_NOTES_PER_MINUTE_def)
  have r5: "clientRecord s5 ip = [t1, t2, t3, t4, t5]"
    unfolding s5_def by (simp add: post_notes_record(2) [OF p5] v5)
  have v6: "validTimestamps t6 (clientRecord s5 ip) = [t1, t2, t3, t4, t5]"
    using order within by (simp add: r5 validTimestamps_def)
  then have p6: "MAX_NOTES_PER_MINUTE \<le> length (validTimestamps t6 (clientRecord s5 ip))"
    by (simp add: MAX_NOTES_PER_MINUTE_def)
  have sixth: "post_notes t6 t6 t6 ip a6 b6 s5 = (RateLimited, s5)"
    by (rule post_notes_limited [OF p6])
  have v7: "validTimestamps t7 (clientRecord s5 ip) = []"
    using order later by (simp add: r5 validTimestamps_def)
  then have p7: "length (validTimestamps t7 (clientRecord s5 ip)) < MAX_NOTES_PER_MINUTE"
    by (simp add: MAX_NOTES_PER_MINUTE_def)
  have accepted:
    "fst (post_notes t1 t1 t1 ip a1 b1 s) \<noteq> RateLimited"
    "fst (post_notes t2 t2 t2 ip a2 b2 s1) \<noteq> RateLimited"
    "fst (post_notes t3 t3 t3 ip a3 b3 s2) \<noteq> RateLimited"
    "fst (post_notes t4 t4 t4 ip a4 b4 s3) \<noteq> RateLimited"
    "fst (post_notes t5 t5 t5 ip a5 b5 s4) \<noteq> RateLimited"
    "fst (post_notes t7 t7 t7 ip a7 b7 s5) \<noteq> RateLimited"
    by (rule post_notes_record(1) [OF p1] post_notes_record(1) [OF p2] post_notes_record(1) [OF p3]
             post_notes_record(1) [OF p4] post_notes_record(1) [OF p5] post_notes_record(1) [OF p7])+
  show ?thesis
    unfolding posts_Cons
    using accepted sixth
    by (simp add: s1_def [symmetric] s2_def [symmetric] s3_def [symmetric] s4_def [symmetric]
                  s5_def [symmetric])
qed

text \<open>
  C2, as the code has it. The check keeps of the client's record the timestamps that are
  less than the window of 60000 ms old, that is, those later than \<open>now - window\<close>; a
  timestamp exactly one window old is discarded with the older ones. With five or more
  kept it answers RateLimited and changes nothing; otherwise the client's record becomes
  the kept timestamps followed by \<open>now\<close> and the request goes on. So, for a client with
  nothing left in its window, six creates at times in order that span less than the
  window: the first five pass and the sixth is answered RateLimited; a seventh at least
  one window after the fifth passes.
\<close>

theorem rate_limit_sliding_window:
  "RATE_LIMIT_WINDOW = 60000 \<and> MAX_NOTES_PER_MINUTE = 5
   \<and> rateLimiter now ip nxt s =
       (let kept = filter (\<lambda>timestamp. now - RATE_LIMIT_WINDOW < timestamp) (clientRecord s ip)
        in if MAX_NOTES_PER_MINUTE \<le> length kept then (RateLimited, s)
           else nxt (s\<lparr>rateLimitMap := (rateLimitMap s)(clientId ip \<mapsto> kept @ [now])\<rparr>))
   \<and> (validTimestamps t1 (clientRecord s ip) = [] \<and>
       t1 \<le> t2 \<and> t2 \<le> t3 \<and> t3 \<le> t4 \<and> t4 \<le> t5 \<and> t5 \<le> t6 \<and>
       t6 - t1 < RATE_LIMIT_WINDOW \<and> RATE_LIMIT_WINDOW \<le> t7 - t5 \<longrightarrow>
       map (\<lambda>r. r = RateLimited)
         (fst (posts ip [(t1, a1, b1), (t2, a2, b2), (t3, a3, b3), (t4, a4, b4),
                         (t5, a5, b5), (t6, a6, b6), (t7, a7, b7)] s))
       = [False, False, False, False, False, True, False])"
  using rateLimiter_algorithm [of now ip nxt s]
        six_in_a_window [of t1 s ip t2 t3 t4 t5 t6 t7 a1 b1 a2 b2 a3 b3 a4 b4 a5 b5 a6 b6 a7 b7]
  by (simp add: RATE_LIMIT_WINDOW_def MAX_NOTES_PER_MINUTE_def)

theorem rate_limit_sliding_window_witness:
  "validTimestamps 1000 (clientRecord initial_state None) = []
   \<and> map (\<lambda>r. r = RateLimited)
        (fst (posts None [(1000, JStr (js ''n1''), JStr (js ''c1'')), (1001, JStr (js ''n2''), JStr (js ''c2'')),
                          (1002, JStr (js ''n3''), JStr (js ''c3'')), (1003, JStr (js ''n4''), JStr (js ''c4'')),
                          (1004, JStr (js ''n5''), JStr (js ''c5'')), (1005, JStr (js ''n6''), JStr (js ''c6'')),
                          (61004, JStr (js ''n7''), JStr (js ''c7''))] initial_state))
      = [False, False, False, False, False, True, False]
   \<and> rateLimiter 1005 None (\<lambda>s. (NotesList 0 [], s)) busy_state = (RateLimited, busy_state)"
proof -
  have fresh: "validTimestamps 1000 (clientRecord initial_state None) = []"
    by (simp add: validTimestamps_def clientRecord_def initial_state_def)
  note r = rate_limit_sliding_window [of 1005 None "\<lambda>s. (NotesList 0 [], s)" initial_state
             1000 1001 1002 1003 1004 1005 61004
             "JStr (js ''n1'')" "JStr (js ''c1'')" "JStr (js ''n2'')" "JStr (js ''c2'')" "JStr (js ''n3'')" "JStr (js ''c3'')"
             "JStr (js ''n4'')" "JStr (js ''c4'')" "JStr (js ''n5'')" "JStr (js ''c5'')" "JStr (js ''n6'')" "JStr (js ''c6'')"
             "JStr (js ''n7'')" "JStr (js ''c7'')"]
  from r [THEN conjunct2, THEN conjunct2, THEN conjunct2] fresh have run: "map (\<lambda>r. r = RateLimited)
        (fst (posts None [(1000, JStr (js ''n1''), JStr (js ''c1'')), (1001, JStr (js ''n2''), JStr (js ''c2'')),
                          (1002, JStr (js ''n3''), JStr (js ''c3'')), (1003, JStr (js ''n4''), JStr (js ''c4'')),
                          (1004, JStr (js ''n5''), JStr (js ''c5'')), (1005, JStr (js ''n6''), JStr (js ''c6'')),
                          (61004, JStr (js ''n7''), JStr (js ''c7''))] initial_state))
      = [False, False, False, False, False, True, False]"
    by (simp add: RATE_LIMIT_WINDOW_def)
  note q = rate_limit_sliding_window [of 1005 None "\<lambda>s. (NotesList 0 [], s)" busy_state]
  from q [THEN conjunct2, THEN conjunct2, THEN conjunct1]
  have "rateLimiter 1005 None (\<lambda>s. (NotesList 0 [], s)) busy_state = (RateLimited, busy_state)"
    by (simp add: busy_state_record RATE_LIMIT_WINDOW_def MAX_NOTES_PER_MINUTE_def)
  with fresh run show ?thesis by simp
qed

text \<open>
  The claim as it was stated fails at the boundary. The client of \<open>busy_state\<close> has the
  record 1000, ..., 1004. At time 61000 none of these is older than \<open>now - window\<close>, which
  is 1000, so by the claim five timestamps remain and the request is rejected; the code
  discards 1000, keeps four, and creates the note.
\<close>

theorem window_boundary_accepted:
  "spec_pruneOlder 61000 (clientRecord busy_state None) = [1000, 1001, 1002, 1003, 1004]
   \<and> validTimestamps 61000 (clientRecord busy_state None) = [1001, 1002, 1003, 1004]
   \<and> fst (post_notes 61000 61000 61000 None (JStr (js ''n6'')) (JStr (js ''c6'')) busy_state)
       = Created \<lparr>note_id = 6, title = js ''n6'', content = js ''c6'', created_at = 61000, updated_at = 61000\<rparr>"
proof -
  have kept: "validTimestamps 61000 (clientRecord busy_state None) = [1001, 1002, 1003, 1004]"
    by (simp add: busy_state_record validTimestamps_def RATE_LIMIT_WINDOW_def)
  have counter: "noteIdCounter busy_state = 6"
    by (simp add: busy_state_def initial_state_def handler_eval)
  have "length (validTimestamps 61000 (clientRecord busy_state None)) < MAX_NOTES_PER_MINUTE"
    by (simp add: kept MAX_NOTES_PER_MINUTE_def)
  then have "fst (post_notes 61000 61000 61000 None (JStr (js ''n6'')) (JStr (js ''c6'')) busy_state)
       = Created \<lparr>note_id = 6, title = js ''n6'', content = js ''c6'', created_at = 61000, updated_at = 61000\<rparr>"
    by (simp add: post_notes_passed createNote_valid counter trim_def isWhiteSpace_def js_def)
  with kept show ?thesis
    by (simp add: busy_state_record spec_pruneOlder_def RATE_LIMIT_WINDOW_def)
qed

section \<open>The timestamps of a new note\<close>

lemma findIndex_append_last:
  "\<forall>y\<in>set xs. \<not> p y \<Longrightarrow> p x \<Longrightarrow> findIndex p (xs @ [x]) = Some (length xs)"
  by (induction xs) auto

text \<open>
  What does hold for a create that passes the rate limiter with a valid body: the note
  that is returned has the cleaned title and content and the two clock readings, and
  looking its identifier up in the new state finds it.
\<close>

lemma create_then_lookup:
  assumes "reachable s"
    and "cleanString a \<noteq> []" "cleanString b \<noteq> []"
    and "length (validTimestamps now (clientRecord s ip)) < MAX_NOTES_PER_MINUTE"
  shows "\<exists>n i. fst (post_notes now tc tu ip a b s) = Created n \<and>
      title n = cleanString a \<and> content n = cleanString b \<and>
      created_at n = tc \<and> updated_at n = tu \<and>
      findIndex (\<lambda>m. note_id m = note_id n) (notes (snd (post_notes now tc tu ip a b s))) = Some i \<and>
      notes (snd (post_notes now tc tu ip a b s)) ! i = n"
proof -
  let ?n = "\<lparr>note_id = noteIdCounter s, title = cleanString a, content = cleanString b,
             created_at = tc, updated_at = tu\<rparr>"
  from assms(2-4) have run: "fst (post_notes now tc tu ip a b s) = Created ?n"
    "notes (snd (post_notes now tc tu ip a b s)) = notes s @ [?n]"
    by (simp_all add: post_notes_passed createNote_valid)
  from reachable_ids [OF assms(1)] have "\<forall>m\<in>set (notes s). note_id m \<in> set [1..<noteIdCounter s]"
    by (metis image_eqI set_map)
  then have new: "\<forall>m\<in>set (notes s). note_id m \<noteq> note_id ?n"
    by auto
  have "findIndex (\<lambda>m. note_id m = note_id ?n) (notes s @ [?n]) = Some (length (notes s))"
    by (rule findIndex_append_last [OF new]) simp
  with run show ?thesis
    by (intro exI [of _ ?n] exI [of _ "length (notes s)"]) simp
qed

text \<open>
  C3. A create that succeeds should store and return a note whose \<open>created_at\<close> equals
  its \<open>updated_at\<close>. The note literal of the create handler evaluates \<open>new Date()\<close>
  once for \<open>created_at\<close> and once more for \<open>updated_at\<close>: when the clock moves from
  1000 to 1001 between the two, the note that is stored and returned has two different
  timestamps. Its title and content are the trimmed inputs.
\<close>

theorem create_reads_clock_twice:
  "post_notes 1000 1000 1001 None (JStr (js ''  Title '')) (JStr (js ''Text'')) initial_state =
     (Created \<lparr>note_id = 1, title = js ''Title'', content = js ''Text'', created_at = 1000, updated_at = 1001\<rparr>,
      \<lparr>notes = [\<lparr>note_id = 1, title = js ''Title'', content = js ''Text'', created_at = 1000, updated_at = 1001\<rparr>],
       noteIdCounter = 2, rateLimitMap = Map.empty(''default'' \<mapsto> [1000])\<rparr>)"
  by (simp add: initial_state_def handler_eval)

end
